theory Spec2Isabelle
  imports Complex_Main
begin

section \<open>JavaScript values of the wire\<close>

text \<open>
  The values that \<^verbatim>\<open>JSON.parse\<close> returns. A number is the value of the double
  (every finite double is a rational; \<^verbatim>\<open>NaN\<close> never comes out of
  \<^verbatim>\<open>JSON.parse\<close>). An object is its list of entries; a property is read with
  \<open>map_of\<close>. \<^verbatim>\<open>undefined\<close> is not a JSON value: the result of reading a property
  is a \<open>json option\<close>, with \<open>None\<close> for \<^verbatim>\<open>undefined\<close>.
\<close>

datatype json =
    JNull
  | JBool bool
  | JNum rat
  | JStr string
  | JArr "json list"
  | JObj "(string \<times> json) list"

type_synonym obj = "(string \<times> json) list"

text \<open>
  \<^verbatim>\<open>data?.name\<close>: a property of an object, \<^verbatim>\<open>undefined\<close> on \<^verbatim>\<open>null\<close> and on
  every value that has no such property. Of the names read in this development one
  is a property of a value that is not an object: \<^verbatim>\<open>keys\<close>, a method of every array,
  which \<^verbatim>\<open>data.list\<close> reads; that read is modelled there, and \<open>get_prop\<close> is used
  with the other names only.
\<close>

fun get_prop :: "json \<Rightarrow> string \<Rightarrow> json option" where
  "get_prop (JObj kvs) k = map_of kvs k"
| "get_prop _ k = None"

text \<open>JavaScript truthiness, as \<^verbatim>\<open>if (v)\<close>, \<^verbatim>\<open>v ? a : b\<close> and \<^verbatim>\<open>v || w\<close> test it.\<close>

fun truthy :: "json option \<Rightarrow> bool" where
  "truthy None = False"
| "truthy (Some JNull) = False"
| "truthy (Some (JBool b)) = b"
| "truthy (Some (JNum n)) = (n \<noteq> 0)"
| "truthy (Some (JStr s)) = (s \<noteq> [])"
| "truthy (Some (JArr xs)) = True"
| "truthy (Some (JObj kvs)) = True"

text \<open>\<^verbatim>\<open>a || b\<close> between two property reads, and \<^verbatim>\<open>a || literal\<close>.\<close>

definition or_js :: "json option \<Rightarrow> json option \<Rightarrow> json option" where
  "or_js a b = (if truthy a then a else b)"

definition or_default :: "json option \<Rightarrow> json \<Rightarrow> json" where
  "or_default a d = (case a of Some v \<Rightarrow> (if truthy (Some v) then v else d) | None \<Rightarrow> d)"

text \<open>The decimal text of a number in a template literal, for the naturals used here.\<close>

definition digit_char :: "nat \<Rightarrow> char" where
  "digit_char n = ''0123456789'' ! n"

fun show_nat :: "nat \<Rightarrow> string" where
  "show_nat n = (if n < 10 then [digit_char n] else show_nat (n div 10) @ [digit_char (n mod 10)])"

declare show_nat.simps [simp del]

text \<open>
  Whether the conversion of a value to a primitive completes. It is what a template
  literal and \<^verbatim>\<open>new Date\<close> do to their argument. An object made by \<^verbatim>\<open>JSON.parse\<close> with
  a key \<^verbatim>\<open>toString\<close> of its own has nothing callable there (and its \<^verbatim>\<open>valueOf\<close>, its
  own or inherited, gives no primitive): the conversion throws a \<^verbatim>\<open>TypeError\<close>. Any
  other object is converted by \<^verbatim>\<open>Object.prototype.toString\<close>, and an array by joining
  the conversions of its elements.
\<close>

fun coercible :: "json \<Rightarrow> bool" where
  "coercible (JArr xs) = list_all coercible xs"
| "coercible (JObj kvs) = (map_of kvs ''toString'' = None)"
| "coercible _ = True"

text \<open>
  What the platform supplies and this development does not compute: \<^verbatim>\<open>JSON.parse\<close>
  (\<open>None\<close> when it throws), \<^verbatim>\<open>Date.parse\<close> (the time value in milliseconds, \<open>None\<close>
  for \<^verbatim>\<open>NaN\<close>), the text of a number, and the message of the \<^verbatim>\<open>TypeError\<close> of a
  failed conversion to a primitive.
\<close>

record platform =
  JSON_parse :: "string \<Rightarrow> json option"
  Date_parse :: "string \<Rightarrow> int option"
  Number_toString :: "rat \<Rightarrow> string"
  TypeError_message :: string

text \<open>The text of a value whose conversion completes (\<^verbatim>\<open>String(v)\<close>).\<close>

fun join_comma :: "string list \<Rightarrow> string" where
  "join_comma [] = []"
| "join_comma [s] = s"
| "join_comma (s # t # ts) = s @ '','' @ join_comma (t # ts)"

fun to_string :: "platform \<Rightarrow> json \<Rightarrow> string" where
  "to_string p JNull = ''null''"
| "to_string p (JBool b) = (if b then ''true'' else ''false'')"
| "to_string p (JNum n) = Number_toString p n"
| "to_string p (JStr s) = s"
| "to_string p (JArr xs) = join_comma (map (\<lambda>x. if x = JNull then [] else to_string p x) xs)"
| "to_string p (JObj kvs) = ''[object Object]''"

section \<open>The exception hierarchy (exceptions.ts)\<close>

text \<open>
  The subclasses of \<^verbatim>\<open>AnchorAPIError\<close> with the field each one adds. The base class
  itself is \<open>AnchorAPIError\<close>.
\<close>

datatype api_class =
    AnchorAPIError
  | AuthenticationError
  | AuthorizationError (requiredPermission: "json option")
  | NotFoundError
  | ValidationError (field: "json option")
  | PolicyViolationError (policyName: json)
  | RateLimitError (retryAfter: "json option")
  | ServerError

text \<open>
  An \<^verbatim>\<open>AnchorAPIError\<close> keeps the message it was constructed with (the text of the
  JavaScript error is \<^verbatim>\<open>`${statusCode}: ${message}`\<close>), the status code and
  \<^verbatim>\<open>response || {}\<close>. A \<^verbatim>\<open>NetworkError\<close> extends \<^verbatim>\<open>AnchorError\<close>, not
  \<^verbatim>\<open>AnchorAPIError\<close>, and has a message only.
\<close>

datatype anchor_error =
    ApiError (error_class: api_class) (error_message: json) (error_statusCode: nat) (error_response: json)
  | NetworkError string

fun is_NotFoundError :: "anchor_error \<Rightarrow> bool" where
  "is_NotFoundError (ApiError NotFoundError m s r) = True"
| "is_NotFoundError _ = False"

section \<open>What a call can throw\<close>

text \<open>
  An error of the library, or the \<^verbatim>\<open>TypeError\<close> of the platform: of a failed conversion
  to a primitive, of reading a property of \<^verbatim>\<open>null\<close>, or of calling \<^verbatim>\<open>.map\<close> on a value
  that has none.
\<close>

datatype exn = Anchor anchor_error | TypeError

section \<open>The error classifier (HttpClient.handleError)\<close>

text \<open>\<^verbatim>\<open>data?.message || data?.error || `HTTP ${statusCode}`\<close>\<close>

definition message_of :: "nat \<Rightarrow> json \<Rightarrow> json" where
  "message_of statusCode data =
     or_default (or_js (get_prop data ''message'') (get_prop data ''error''))
       (JStr (''HTTP '' @ show_nat statusCode))"

text \<open>
  The constructor of \<^verbatim>\<open>AnchorAPIError\<close>, which every subclass calls first with the
  message, the status and the body: it builds the text
  \<^verbatim>\<open>`${statusCode}: ${message}`\<close>, so it throws a \<^verbatim>\<open>TypeError\<close> when the message is a
  value whose conversion does not complete, and otherwise gives the error, with
  \<^verbatim>\<open>response || {}\<close>.
\<close>

definition new_error :: "api_class \<Rightarrow> json \<Rightarrow> nat \<Rightarrow> json \<Rightarrow> exn" where
  "new_error cls message statusCode response =
     (if coercible message
      then Anchor (ApiError cls message statusCode (or_default (Some response) (JObj [])))
      else TypeError)"

text \<open>
  \<^verbatim>\<open>handleError\<close> always throws; the model returns what it throws. The second read of
  \<^verbatim>\<open>data.blocked_by\<close> is without \<^verbatim>\<open>?.\<close>, and is reached only when one of the two
  fields is truthy, so \<^verbatim>\<open>data\<close> is not \<^verbatim>\<open>null\<close> there.
\<close>

definition handleError :: "nat \<Rightarrow> json \<Rightarrow> exn" where
  "handleError statusCode data =
     (let message = message_of statusCode data
      in if truthy (get_prop data ''blocked_by'') \<or> truthy (get_prop data ''policy_name'')
         then new_error (PolicyViolationError
                (or_default (or_js (get_prop data ''blocked_by'') (get_prop data ''policy_name''))
                   (JStr ''unknown'')))
                message statusCode data
         else if statusCode = 400 then
           new_error (ValidationError (get_prop data ''field'')) message statusCode data
         else if statusCode = 401 then
           new_error AuthenticationError message statusCode data
         else if statusCode = 403 then
           new_error (AuthorizationError (get_prop data ''required_permission'')) message statusCode data
         else if statusCode = 404 then
           new_error NotFoundError message statusCode data
         else if statusCode = 429 then
           new_error (RateLimitError (get_prop data ''retry_after'')) message statusCode data
         else if statusCode \<ge> 500 then
           new_error ServerError message statusCode data
         else
           new_error AnchorAPIError message statusCode data)"

section \<open>The request pipeline (HttpClient.request)\<close>

text \<open>
  The fields of the client configuration that \<^verbatim>\<open>request\<close> reads. An optional
  number is \<open>None\<close> when it is \<^verbatim>\<open>undefined\<close>; counts and milliseconds are naturals.
\<close>

record config =
  cfg_apiKey :: string
  cfg_baseUrl :: "string option"
  cfg_timeout :: "nat option"
  cfg_retryAttempts :: "nat option"
  cfg_retryDelay :: "nat option"

text \<open>
  The target of a call: \<^verbatim>\<open>`${baseUrl}${endpoint}`\<close> and the query pairs appended to
  it, in the order of the caller's parameters. Percent-encoding, and the
  \<^verbatim>\<open>TypeError\<close> of the \<^verbatim>\<open>URL\<close> constructor on a malformed base, are not modelled.
\<close>

record url =
  url_target :: string
  url_query :: "(string \<times> string) list"

text \<open>
  One call of \<^verbatim>\<open>fetch\<close>: the target, the method, the headers in insertion order,
  and the body, given as the value whose \<^verbatim>\<open>JSON.stringify\<close> text is sent.
\<close>

record fetch_call =
  call_url :: url
  call_method :: string
  call_headers :: "(string \<times> string) list"
  call_body :: "json option"

text \<open>
  What the pipeline does to the world, in order: calls of \<^verbatim>\<open>fetch\<close> and awaited
  sleeps of so many milliseconds.
\<close>

datatype event = Fetch fetch_call | Sleep nat

text \<open>
  A value thrown by the platform: its \<^verbatim>\<open>name\<close> and the text
  \<^verbatim>\<open>e?.message || String(e)\<close>.
\<close>

datatype thrown = Thrown (thrown_name: string) (thrown_text: string)

text \<open>
  A response: its status and its text (\<open>None\<close> when \<^verbatim>\<open>response.text()\<close> rejects).
  \<^verbatim>\<open>response.ok\<close> is, by the Fetch standard, that the status is in 200..299.
\<close>

record http_response =
  resp_status :: nat
  resp_text :: "string option"

definition ok :: "http_response \<Rightarrow> bool" where
  "ok r = (200 \<le> resp_status r \<and> resp_status r \<le> 299)"

text \<open>
  What the world answers to one iteration of the loop: the set-up before the call
  throws (\<^verbatim>\<open>getFetch()\<close> finds no \<^verbatim>\<open>fetch\<close>), the call of \<^verbatim>\<open>fetch\<close> rejects (an
  \<^verbatim>\<open>AbortError\<close> when the timeout fired), or it resolves with a response.
\<close>

datatype outcome =
    SetupThrows thrown
  | FetchRejects thrown
  | FetchResolves http_response

text \<open>The body of a response as a value, with the platform's \<^verbatim>\<open>JSON.parse\<close>.\<close>

definition parseBody :: "(string \<Rightarrow> json option) \<Rightarrow> string option \<Rightarrow> json" where
  "parseBody json_parse t =
     (case t of
        Some text \<Rightarrow>
          (if text \<noteq> [] then
             (case json_parse text of
                Some v \<Rightarrow> v
              | None \<Rightarrow> JObj [(''error'', JStr text)])
           else JObj [])
      | None \<Rightarrow> JObj [])"

text \<open>
  The \<^verbatim>\<open>NetworkError\<close> that both \<^verbatim>\<open>catch\<close> blocks build from a thrown value that is
  not an error of the library.
\<close>

definition network_error_of :: "nat \<Rightarrow> thrown \<Rightarrow> anchor_error" where
  "network_error_of timeout e =
     (if thrown_name e = ''AbortError''
      then NetworkError (''Request timeout after '' @ show_nat timeout @ ''ms'')
      else NetworkError (''Request failed: '' @ thrown_text e))"

text \<open>The status that \<^verbatim>\<open>request\<close> classifies, and the statuses it does not retry.\<close>

definition status_or_500 :: "http_response \<Rightarrow> nat" where
  "status_or_500 r = (if resp_status r \<noteq> 0 then resp_status r else 500)"

definition terminal_status :: "nat \<Rightarrow> bool" where
  "terminal_status s = (400 \<le> s \<and> s < 500 \<and> s \<noteq> 429)"

definition emit :: "event list \<Rightarrow> event list \<times> 'a \<Rightarrow> event list \<times> 'a" where
  "emit evs r = (evs @ fst r, snd r)"

text \<open>
  The \<^verbatim>\<open>for\<close> loop of \<^verbatim>\<open>request\<close>, from iteration \<open>attempt\<close> on, and the two
  \<^verbatim>\<open>throw\<close> statements after it. The result is the trace of events and either the
  error thrown or the value returned. The outer \<^verbatim>\<open>catch\<close> of an iteration:
  \<^item> throws an instance of \<^verbatim>\<open>AnchorAPIError\<close> again at once; these are the errors that
    \<^verbatim>\<open>handleError\<close> builds;
  \<^item> keeps a \<^verbatim>\<open>NetworkError\<close> as it is: when \<^verbatim>\<open>fetch\<close> rejects on the last
    iteration, the \<^verbatim>\<open>throw lastError\<close> of the inner \<^verbatim>\<open>catch\<close> lands here, and the
    loop ends without another sleep;
  \<^item> turns anything else into a \<^verbatim>\<open>NetworkError\<close>, sleeps if an iteration is left
    and goes on: so it does with the \<^verbatim>\<open>TypeError\<close> that \<^verbatim>\<open>handleError\<close> throws
    when the message cannot be converted.
\<close>

function attempts ::
  "platform \<Rightarrow> (nat \<Rightarrow> outcome) \<Rightarrow> fetch_call \<Rightarrow> nat \<Rightarrow> nat \<Rightarrow> nat \<Rightarrow>
     nat \<Rightarrow> anchor_error option \<Rightarrow> event list \<times> (anchor_error + json)" where
  "attempts p world call timeout retryAttempts retryDelay attempt lastError =
     (if attempt \<le> retryAttempts then
        (case world attempt of
           SetupThrows e \<Rightarrow>
             (if attempt < retryAttempts
              then emit [Sleep (retryDelay * 2 ^ attempt)]
                     (attempts p world call timeout retryAttempts retryDelay
                        (attempt + 1) (Some (network_error_of timeout e)))
              else attempts p world call timeout retryAttempts retryDelay
                     (attempt + 1) (Some (network_error_of timeout e)))
         | FetchRejects e \<Rightarrow>
             (if attempt < retryAttempts
              then emit [Fetch call, Sleep (retryDelay * 2 ^ attempt)]
                     (attempts p world call timeout retryAttempts retryDelay
                        (attempt + 1) (Some (network_error_of timeout e)))
              else emit [Fetch call]
                     (attempts p world call timeout retryAttempts retryDelay
                        (attempt + 1) (Some (network_error_of timeout e))))
         | FetchResolves r \<Rightarrow>
             (let responseData = parseBody (JSON_parse p) (resp_text r) in
              if ok r then ([Fetch call], Inr responseData)
              else
                (let statusCode = (if resp_status r \<noteq> 0 then resp_status r else 500) in
                 if statusCode \<ge> 400 \<and> statusCode < 500 \<and> statusCode \<noteq> 429
                 then
                   (case handleError statusCode responseData of
                      Anchor error \<Rightarrow> ([Fetch call], Inl error)
                    | TypeError \<Rightarrow>
                        (if attempt < retryAttempts
                         then emit [Fetch call, Sleep (retryDelay * 2 ^ attempt)]
                                (attempts p world call timeout retryAttempts retryDelay
                                   (attempt + 1)
                                   (Some (network_error_of timeout
                                      (Thrown ''TypeError'' (TypeError_message p)))))
                         else emit [Fetch call]
                                (attempts p world call timeout retryAttempts retryDelay
                                   (attempt + 1)
                                   (Some (network_error_of timeout
                                      (Thrown ''TypeError'' (TypeError_message p)))))))
                 else if attempt < retryAttempts
                 then emit [Fetch call, Sleep (retryDelay * 2 ^ attempt)]
                        (attempts p world call timeout retryAttempts retryDelay
                           (attempt + 1) lastError)
                 else
                   (case handleError statusCode responseData of
                      Anchor error \<Rightarrow> ([Fetch call], Inl error)
                    | TypeError \<Rightarrow>
                        emit [Fetch call]
                          (attempts p world call timeout retryAttempts retryDelay
                             (attempt + 1)
                             (Some (network_error_of timeout
                                (Thrown ''TypeError'' (TypeError_message p)))))))))
      else
        (case lastError of
           Some e \<Rightarrow> ([], Inl e)
         | None \<Rightarrow> ([], Inl (NetworkError ''Request failed after retries''))))"
  by pat_completeness auto
termination
  by (relation "measure (\<lambda>(p, world, call, timeout, retryAttempts, retryDelay, attempt, lastError).
        Suc retryAttempts - attempt)") auto

declare attempts.simps [simp del]

text \<open>The headers of a call, an object filled in this order.\<close>

definition build_headers :: "config \<Rightarrow> obj option \<Rightarrow> (string \<times> string) list" where
  "build_headers cfg data =
     [(''User-Agent'', ''anchorai-typescript/1.0.0'')]
     @ (if cfg_apiKey cfg \<noteq> [] then [(''X-API-Key'', cfg_apiKey cfg)] else [])
     @ (if data \<noteq> None then [(''Content-Type'', ''application/json'')] else [])"

text \<open>
  The query of the target: the parameters whose value is neither \<^verbatim>\<open>undefined\<close> nor
  \<^verbatim>\<open>null\<close>. A parameter is given with the text \<^verbatim>\<open>String(value)\<close> of its value,
  \<open>None\<close> for \<^verbatim>\<open>undefined\<close> and \<^verbatim>\<open>null\<close>.
\<close>

definition build_query :: "(string \<times> string option) list \<Rightarrow> (string \<times> string) list" where
  "build_query params = concat (map (\<lambda>(key, v). case v of Some s \<Rightarrow> [(key, s)] | None \<Rightarrow> []) params)"

text \<open>The defaults of \<^verbatim>\<open>request\<close>: \<^verbatim>\<open>||\<close> replaces 0 and the empty string too, \<^verbatim>\<open>??\<close> only \<^verbatim>\<open>undefined\<close>.\<close>

definition effective_baseUrl :: "config \<Rightarrow> string" where
  "effective_baseUrl cfg =
     (case cfg_baseUrl cfg of Some b \<Rightarrow> (if b \<noteq> [] then b else ''https://api.getanchor.dev'')
      | None \<Rightarrow> ''https://api.getanchor.dev'')"

definition effective_timeout :: "config \<Rightarrow> nat" where
  "effective_timeout cfg =
     (case cfg_timeout cfg of Some t \<Rightarrow> (if t \<noteq> 0 then t else 30000) | None \<Rightarrow> 30000)"

definition effective_retryAttempts :: "config \<Rightarrow> nat" where
  "effective_retryAttempts cfg = (case cfg_retryAttempts cfg of Some n \<Rightarrow> n | None \<Rightarrow> 3)"

definition effective_retryDelay :: "config \<Rightarrow> nat" where
  "effective_retryDelay cfg =
     (case cfg_retryDelay cfg of Some d \<Rightarrow> (if d \<noteq> 0 then d else 1000) | None \<Rightarrow> 1000)"

text \<open>
  The call that every iteration of the loop makes: the target, the headers and the
  body are built once, before the loop. The declared type of \<^verbatim>\<open>data\<close> is an object or
  \<^verbatim>\<open>undefined\<close>.
\<close>

definition build_call :: "config \<Rightarrow> string \<Rightarrow> string \<Rightarrow> obj option \<Rightarrow> (string \<times> string option) list \<Rightarrow> fetch_call" where
  "build_call cfg method endpoint data params =
     \<lparr> call_url = \<lparr> url_target = effective_baseUrl cfg @ endpoint, url_query = build_query params \<rparr>,
       call_method = method,
       call_headers = build_headers cfg data,
       call_body = (case data of Some kvs \<Rightarrow> (if truthy (Some (JObj kvs)) then Some (JObj kvs) else None)
                    | None \<Rightarrow> None) \<rparr>"

definition request ::
  "config \<Rightarrow> platform \<Rightarrow> (nat \<Rightarrow> outcome) \<Rightarrow> string \<Rightarrow> string \<Rightarrow> obj option \<Rightarrow>
     (string \<times> string option) list \<Rightarrow> event list \<times> (anchor_error + json)" where
  "request cfg p world method endpoint data params =
     attempts p world (build_call cfg method endpoint data params)
       (effective_timeout cfg) (effective_retryAttempts cfg) (effective_retryDelay cfg) 0 None"

text \<open>The calls of \<^verbatim>\<open>fetch\<close> and the sleeps of a trace, each in order.\<close>

fun fetches :: "event list \<Rightarrow> fetch_call list" where
  "fetches [] = []"
| "fetches (Fetch c # evs) = c # fetches evs"
| "fetches (Sleep ms # evs) = fetches evs"

fun sleeps :: "event list \<Rightarrow> nat list" where
  "sleeps [] = []"
| "sleeps (Fetch c # evs) = sleeps evs"
| "sleeps (Sleep ms # evs) = ms # sleeps evs"

text \<open>
  The events of iteration \<open>i\<close> before its sleep, and the trace of a run that goes
  through the iterations \<open>a\<close> to \<open>n\<close>, sleeping after each but the last.
\<close>

definition attempt_events :: "(nat \<Rightarrow> outcome) \<Rightarrow> fetch_call \<Rightarrow> nat \<Rightarrow> event list" where
  "attempt_events world call i = (case world i of SetupThrows e \<Rightarrow> [] | _ \<Rightarrow> [Fetch call])"

definition backoff_trace :: "(nat \<Rightarrow> outcome) \<Rightarrow> fetch_call \<Rightarrow> nat \<Rightarrow> nat \<Rightarrow> nat \<Rightarrow> event list" where
  "backoff_trace world call retryDelay a n =
     concat (map (\<lambda>i. attempt_events world call i @ [Sleep (retryDelay * 2 ^ i)]) [a..<n])
     @ attempt_events world call n"

text \<open>
  The outcomes after which an iteration that is not the last sleeps and goes on: a
  throw of the set-up, a rejection, and a response that is not a success and either
  has a status outside 400..499 or 429, or makes \<^verbatim>\<open>handleError\<close> throw a \<^verbatim>\<open>TypeError\<close>.
\<close>

definition retries :: "platform \<Rightarrow> outcome \<Rightarrow> bool" where
  "retries p oc =
     (case oc of
        SetupThrows e \<Rightarrow> True
      | FetchRejects e \<Rightarrow> True
      | FetchResolves r \<Rightarrow>
          \<not> ok r \<and>
          (\<not> terminal_status (status_or_500 r)
           \<or> handleError (status_or_500 r) (parseBody (JSON_parse p) (resp_text r)) = TypeError))"

text \<open>
  The failed attempts that the specification names as retried: a failure of the
  transport (the call of \<^verbatim>\<open>fetch\<close> rejects: no connection, or the timeout), and a
  response with status 429 or 500 and above.
\<close>

definition retryable_failure :: "outcome \<Rightarrow> bool" where
  "retryable_failure oc =
     (case oc of
        SetupThrows e \<Rightarrow> False
      | FetchRejects e \<Rightarrow> True
      | FetchResolves r \<Rightarrow> resp_status r = 429 \<or> 500 \<le> resp_status r)"

text \<open>\<open>n\<close> attempts, each followed by its sleep.\<close>

definition backoff_prefix :: "fetch_call \<Rightarrow> nat \<Rightarrow> nat \<Rightarrow> event list" where
  "backoff_prefix call retryDelay n =
     concat (map (\<lambda>i. [Fetch call, Sleep (retryDelay * 2 ^ i)]) [0..<n])"

section \<open>The normalizers of the namespaces\<close>

text \<open>
  The object that \<^verbatim>\<open>new Date(v)\<close> constructs, when the construction completes. Its
  time value is \<open>time_value\<close> below; nothing depends on two such objects being
  different.
\<close>

datatype js_date = NewDate json

text \<open>
  \<^verbatim>\<open>v ? new Date(v) : undefined\<close>, when the construction completes; it throws a
  \<^verbatim>\<open>TypeError\<close> when \<open>v\<close> is truthy and its conversion to a primitive does not
  complete.
\<close>

definition date_of :: "json option \<Rightarrow> js_date option" where
  "date_of v = (case v of Some x \<Rightarrow> (if truthy (Some x) then Some (NewDate x) else None) | None \<Rightarrow> None)"

definition date_throws :: "json option \<Rightarrow> bool" where
  "date_throws v = (case v of Some x \<Rightarrow> truthy (Some x) \<and> \<not> coercible x | None \<Rightarrow> False)"

text \<open>
  The time value of a date, in milliseconds since the epoch, \<open>None\<close> for the
  \<^verbatim>\<open>NaN\<close> of an Invalid Date. A string is given to \<^verbatim>\<open>Date.parse\<close>; a number is
  clipped (cut to an integer, and \<^verbatim>\<open>NaN\<close> beyond 8.64e15 either way); \<^verbatim>\<open>true\<close> and
  \<^verbatim>\<open>null\<close> count as the numbers 1 and 0; an array or an object is converted to its
  text first.
\<close>

definition time_clip :: "rat \<Rightarrow> int option" where
  "time_clip n =
     (if \<bar>n\<bar> \<le> 8640000000000000 then Some (if 0 \<le> n then \<lfloor>n\<rfloor> else \<lceil>n\<rceil>) else None)"

fun time_value :: "platform \<Rightarrow> js_date \<Rightarrow> int option" where
  "time_value p (NewDate (JStr s)) = Date_parse p s"
| "time_value p (NewDate (JNum n)) = time_clip n"
| "time_value p (NewDate (JBool b)) = Some (if b then 1 else 0)"
| "time_value p (NewDate JNull) = Some 0"
| "time_value p (NewDate v) = Date_parse p (to_string p v)"

text \<open>
  The properties that a normalizer can read of a value that is not \<^verbatim>\<open>null\<close>: those
  of an object, none of any other value. (On \<^verbatim>\<open>null\<close> the read throws; every use
  below is on a value known not to be \<^verbatim>\<open>null\<close>, or behind a test for it.)
\<close>

fun fields_of :: "json \<Rightarrow> obj" where
  "fields_of (JObj kvs) = kvs"
| "fields_of _ = []"

record agent =
  Agent_id :: json
  Agent_name :: json
  Agent_status :: json
  Agent_metadata :: json
  Agent_configVersion :: "json option"
  Agent_dataCount :: "json option"
  Agent_checkpointCount :: "json option"
  Agent_createdAt :: "js_date option"
  Agent_updatedAt :: "js_date option"

definition parseAgent :: "obj \<Rightarrow> agent" where
  "parseAgent data =
     \<lparr> Agent_id = or_default (or_js (map_of data ''id'') (map_of data ''agent_id'')) (JStr []),
       Agent_name = or_default (map_of data ''name'') (JStr []),
       Agent_status = or_default (map_of data ''status'') (JStr ''active''),
       Agent_metadata = or_default (or_js (map_of data ''metadata'') (map_of data ''config'')) (JObj []),
       Agent_configVersion = map_of data ''config_version'',
       Agent_dataCount = map_of data ''data_count'',
       Agent_checkpointCount = map_of data ''checkpoint_count'',
       Agent_createdAt = date_of (map_of data ''created_at''),
       Agent_updatedAt = date_of (map_of data ''updated_at'') \<rparr>"

record agent_config =
  Config_agentId :: json
  Config_version :: json
  Config_config :: json
  Config_previousVersion :: "json option"
  Config_createdAt :: "js_date option"
  Config_createdBy :: "json option"
  Config_auditId :: "json option"

definition parseConfig :: "obj \<Rightarrow> agent_config" where
  "parseConfig data =
     \<lparr> Config_agentId = or_default (map_of data ''agent_id'') (JStr []),
       Config_version = or_default (map_of data ''version'') (JStr []),
       Config_config = or_default (map_of data ''config'') (JObj []),
       Config_previousVersion = map_of data ''previous_version'',
       Config_createdAt = date_of (map_of data ''created_at''),
       Config_createdBy = map_of data ''created_by'',
       Config_auditId = map_of data ''audit_id'' \<rparr>"

record config_version =
  ConfigVersion_version :: json
  ConfigVersion_createdAt :: "js_date option"
  ConfigVersion_createdBy :: "json option"
  ConfigVersion_summary :: "json option"

definition parseConfigVersion :: "obj \<Rightarrow> config_version" where
  "parseConfigVersion data =
     \<lparr> ConfigVersion_version = or_default (map_of data ''version'') (JStr []),
       ConfigVersion_createdAt = date_of (map_of data ''created_at''),
       ConfigVersion_createdBy = map_of data ''created_by'',
       ConfigVersion_summary = map_of data ''summary'' \<rparr>"

record write_result =
  WriteResult_key :: json
  WriteResult_allowed :: bool
  WriteResult_auditId :: json
  WriteResult_blockedBy :: "json option"
  WriteResult_reason :: "json option"
  WriteResult_expiresAt :: "js_date option"
  WriteResult_createdAt :: "js_date option"

definition parseWriteResult :: "obj \<Rightarrow> write_result" where
  "parseWriteResult data =
     \<lparr> WriteResult_key = or_default (map_of data ''key'') (JStr []),
       WriteResult_allowed = (map_of data ''allowed'' \<noteq> Some (JBool False)),
       WriteResult_auditId = or_default (map_of data ''audit_id'') (JStr []),
       WriteResult_blockedBy = map_of data ''blocked_by'',
       WriteResult_reason = map_of data ''reason'',
       WriteResult_expiresAt = date_of (map_of data ''expires_at''),
       WriteResult_createdAt = date_of (map_of data ''created_at'') \<rparr>"

record data_entry =
  DataEntry_key :: json
  DataEntry_value :: json
  DataEntry_metadata :: json
  DataEntry_createdAt :: "js_date option"
  DataEntry_updatedAt :: "js_date option"
  DataEntry_expiresAt :: "js_date option"
  DataEntry_auditId :: json

definition parseDataEntry :: "obj \<Rightarrow> data_entry" where
  "parseDataEntry data =
     \<lparr> DataEntry_key = or_default (map_of data ''key'') (JStr []),
       DataEntry_value = or_default (map_of data ''value'') (JStr []),
       DataEntry_metadata = or_default (map_of data ''metadata'') (JObj []),
       DataEntry_createdAt = date_of (map_of data ''created_at''),
       DataEntry_updatedAt = date_of (map_of data ''updated_at''),
       DataEntry_expiresAt = date_of (map_of data ''expires_at''),
       DataEntry_auditId = or_default (map_of data ''audit_id'') (JStr []) \<rparr>"

record search_result =
  SearchResult_key :: json
  SearchResult_value :: json
  SearchResult_similarity :: json
  SearchResult_metadata :: json

definition parseSearchResult :: "obj \<Rightarrow> search_result" where
  "parseSearchResult data =
     \<lparr> SearchResult_key = or_default (map_of data ''key'') (JStr []),
       SearchResult_value = or_default (map_of data ''value'') (JStr []),
       SearchResult_similarity = or_default (map_of data ''similarity'') (JNum 0),
       SearchResult_metadata = or_default (map_of data ''metadata'') (JObj []) \<rparr>"

record data_snapshot =
  DataSnapshot_keyCount :: json
  DataSnapshot_totalSizeBytes :: json

definition parseDataSnapshot :: "obj \<Rightarrow> data_snapshot" where
  "parseDataSnapshot data =
     \<lparr> DataSnapshot_keyCount = or_default (map_of data ''key_count'') (JNum 0),
       DataSnapshot_totalSizeBytes = or_default (map_of data ''total_size_bytes'') (JNum 0) \<rparr>"

record checkpoint =
  Checkpoint_id :: json
  Checkpoint_agentId :: json
  Checkpoint_label :: "json option"
  Checkpoint_description :: "json option"
  Checkpoint_configVersion :: json
  Checkpoint_dataSnapshot :: data_snapshot
  Checkpoint_createdAt :: "js_date option"
  Checkpoint_auditId :: "json option"

definition parseCheckpoint :: "obj \<Rightarrow> checkpoint" where
  "parseCheckpoint data =
     \<lparr> Checkpoint_id = or_default (map_of data ''id'') (JStr []),
       Checkpoint_agentId = or_default (map_of data ''agent_id'') (JStr []),
       Checkpoint_label = map_of data ''label'',
       Checkpoint_description = map_of data ''description'',
       Checkpoint_configVersion = or_default (map_of data ''config_version'') (JStr []),
       Checkpoint_dataSnapshot =
         parseDataSnapshot (fields_of (or_default (map_of data ''data_snapshot'') (JObj []))),
       Checkpoint_createdAt = date_of (map_of data ''created_at''),
       Checkpoint_auditId = map_of data ''audit_id'' \<rparr>"

record restore_result =
  RestoreResult_restoredFrom :: json
  RestoreResult_configRestored :: json
  RestoreResult_configVersion :: "json option"
  RestoreResult_dataRestored :: json
  RestoreResult_dataKeysRestored :: json
  RestoreResult_dataKeysRemoved :: json
  RestoreResult_auditId :: json
  RestoreResult_restoredAt :: "js_date option"

definition parseRestoreResult :: "obj \<Rightarrow> restore_result" where
  "parseRestoreResult data =
     \<lparr> RestoreResult_restoredFrom = or_default (map_of data ''restored_from'') (JStr []),
       RestoreResult_configRestored = or_default (map_of data ''config_restored'') (JBool False),
       RestoreResult_configVersion = map_of data ''config_version'',
       RestoreResult_dataRestored = or_default (map_of data ''data_restored'') (JBool False),
       RestoreResult_dataKeysRestored = or_default (map_of data ''data_keys_restored'') (JNum 0),
       RestoreResult_dataKeysRemoved = or_default (map_of data ''data_keys_removed'') (JNum 0),
       RestoreResult_auditId = or_default (map_of data ''audit_id'') (JStr []),
       RestoreResult_restoredAt = date_of (map_of data ''restored_at'') \<rparr>"

record audit_event =
  AuditEvent_id :: json
  AuditEvent_agentId :: json
  AuditEvent_operation :: json
  AuditEvent_resource :: json
  AuditEvent_result :: json
  AuditEvent_blockedBy :: "json option"
  AuditEvent_timestamp :: "js_date option"
  AuditEvent_hash :: json
  AuditEvent_previousHash :: "json option"
  AuditEvent_metadata :: json

definition parseAuditEvent :: "obj \<Rightarrow> audit_event" where
  "parseAuditEvent data =
     \<lparr> AuditEvent_id = or_default (map_of data ''id'') (JStr []),
       AuditEvent_agentId = or_default (map_of data ''agent_id'') (JStr []),
       AuditEvent_operation = or_default (map_of data ''operation'') (JStr []),
       AuditEvent_resource = or_default (map_of data ''resource'') (JStr []),
       AuditEvent_result = or_default (map_of data ''result'') (JStr ''allowed''),
       AuditEvent_blockedBy = map_of data ''blocked_by'',
       AuditEvent_timestamp = date_of (map_of data ''timestamp''),
       AuditEvent_hash = or_default (map_of data ''hash'') (JStr []),
       AuditEvent_previousHash = map_of data ''previous_hash'',
       AuditEvent_metadata = or_default (map_of data ''metadata'') (JObj []) \<rparr>"

record verification =
  Verification_valid :: json
  Verification_eventsChecked :: json
  Verification_chainStart :: "json option"
  Verification_chainEnd :: "json option"
  Verification_verifiedAt :: "js_date option"
  Verification_firstInvalid :: "json option"

definition parseVerification :: "obj \<Rightarrow> verification" where
  "parseVerification data =
     \<lparr> Verification_valid = or_default (map_of data ''valid'') (JBool False),
       Verification_eventsChecked = or_default (map_of data ''events_checked'') (JNum 0),
       Verification_chainStart = map_of data ''chain_start'',
       Verification_chainEnd = map_of data ''chain_end'',
       Verification_verifiedAt = date_of (map_of data ''verified_at''),
       Verification_firstInvalid = map_of data ''first_invalid'' \<rparr>"

record export_result =
  ExportResult_exportId :: json
  ExportResult_format :: json
  ExportResult_downloadUrl :: json
  ExportResult_expiresAt :: "js_date option"
  ExportResult_eventCount :: json
  ExportResult_verification :: "verification option"

definition parseExportResult :: "obj \<Rightarrow> export_result" where
  "parseExportResult data =
     \<lparr> ExportResult_exportId = or_default (map_of data ''export_id'') (JStr []),
       ExportResult_format = or_default (map_of data ''format'') (JStr ''json''),
       ExportResult_downloadUrl = or_default (map_of data ''download_url'') (JStr []),
       ExportResult_expiresAt = date_of (map_of data ''expires_at''),
       ExportResult_eventCount = or_default (map_of data ''event_count'') (JNum 0),
       ExportResult_verification =
         (case map_of data ''verification'' of
            Some v \<Rightarrow> (if truthy (Some v) then Some (parseVerification (fields_of v)) else None)
          | None \<Rightarrow> None) \<rparr>"

section \<open>When a normalizer throws\<close>

text \<open>
  A normalizer throws only from a \<^verbatim>\<open>new Date\<close>. The call of a normalizer: the
  \<^verbatim>\<open>TypeError\<close> when the value of one of its timestamp fields cannot be converted, and
  otherwise the entity above.
\<close>

definition try_parseAgent :: "obj \<Rightarrow> exn + agent" where
  "try_parseAgent data =
     (if date_throws (map_of data ''created_at'') \<or> date_throws (map_of data ''updated_at'')
      then Inl TypeError else Inr (parseAgent data))"

definition try_parseConfig :: "obj \<Rightarrow> exn + agent_config" where
  "try_parseConfig data =
     (if date_throws (map_of data ''created_at'') then Inl TypeError else Inr (parseConfig data))"

definition try_parseConfigVersion :: "obj \<Rightarrow> exn + config_version" where
  "try_parseConfigVersion data =
     (if date_throws (map_of data ''created_at'') then Inl TypeError
      else Inr (parseConfigVersion data))"

definition try_parseWriteResult :: "obj \<Rightarrow> exn + write_result" where
  "try_parseWriteResult data =
     (if date_throws (map_of data ''expires_at'') \<or> date_throws (map_of data ''created_at'')
      then Inl TypeError else Inr (parseWriteResult data))"

definition try_parseDataEntry :: "obj \<Rightarrow> exn + data_entry" where
  "try_parseDataEntry data =
     (if date_throws (map_of data ''created_at'') \<or> date_throws (map_of data ''updated_at'')
         \<or> date_throws (map_of data ''expires_at'')
      then Inl TypeError else Inr (parseDataEntry data))"

definition try_parseSearchResult :: "obj \<Rightarrow> exn + search_result" where
  "try_parseSearchResult data = Inr (parseSearchResult data)"

definition try_parseCheckpoint :: "obj \<Rightarrow> exn + checkpoint" where
  "try_parseCheckpoint data =
     (if date_throws (map_of data ''created_at'') then Inl TypeError
      else Inr (parseCheckpoint data))"

definition try_parseRestoreResult :: "obj \<Rightarrow> exn + restore_result" where
  "try_parseRestoreResult data =
     (if date_throws (map_of data ''restored_at'') then Inl TypeError
      else Inr (parseRestoreResult data))"

definition try_parseAuditEvent :: "obj \<Rightarrow> exn + audit_event" where
  "try_parseAuditEvent data =
     (if date_throws (map_of data ''timestamp'') then Inl TypeError
      else Inr (parseAuditEvent data))"

definition try_parseVerification :: "obj \<Rightarrow> exn + verification" where
  "try_parseVerification data =
     (if date_throws (map_of data ''verified_at'') then Inl TypeError
      else Inr (parseVerification data))"

definition try_parseExportResult :: "obj \<Rightarrow> exn + export_result" where
  "try_parseExportResult data =
     (if date_throws (map_of data ''expires_at'')
         \<or> (case map_of data ''verification'' of
               Some v \<Rightarrow> truthy (Some v) \<and> date_throws (map_of (fields_of v) ''verified_at'')
             | None \<Rightarrow> False)
      then Inl TypeError else Inr (parseExportResult data))"

section \<open>The facades of the namespaces\<close>

text \<open>
  Every method makes one call of the pipeline and awaits it. The model of a method
  takes the outcome of that call: the error thrown or the value returned.
  \<open>awaited\<close> is \<^verbatim>\<open>const response = await this.http.get(...)\<close> followed by the rest
  of the method: an error of the pipeline leaves the method as it is.
\<close>

definition awaited :: "anchor_error + json \<Rightarrow> (json \<Rightarrow> exn + 'a) \<Rightarrow> exn + 'a" where
  "awaited res rest = (case res of Inl e \<Rightarrow> Inl (Anchor e) | Inr response \<Rightarrow> rest response)"

text \<open>
  \<^verbatim>\<open>try { ... } catch (error) { if (error instanceof NotFoundError) return null; throw error; }\<close>,
  with \<open>None\<close> for \<^verbatim>\<open>null\<close>.
\<close>

definition null_if_NotFound :: "exn + 'a \<Rightarrow> exn + 'a option" where
  "null_if_NotFound r =
     (case r of
        Inr v \<Rightarrow> Inr (Some v)
      | Inl (Anchor e) \<Rightarrow> (if is_NotFoundError e then Inr None else Inl (Anchor e))
      | Inl TypeError \<Rightarrow> Inl TypeError)"

text \<open>\<^verbatim>\<open>parse(response)\<close>: the first property read throws on \<^verbatim>\<open>null\<close>.\<close>

definition parse_response :: "(obj \<Rightarrow> exn + 'a) \<Rightarrow> json \<Rightarrow> exn + 'a" where
  "parse_response parse response =
     (case response of JNull \<Rightarrow> Inl TypeError | _ \<Rightarrow> parse (fields_of response))"

text \<open>\<^verbatim>\<open>parseAgent(response.agent || response)\<close>\<close>

definition agent_of_response :: "json \<Rightarrow> exn + agent" where
  "agent_of_response response =
     (case response of
        JNull \<Rightarrow> Inl TypeError
      | _ \<Rightarrow> try_parseAgent (fields_of (or_default (get_prop response ''agent'') response)))"

text \<open>The results of the calls on the elements of an array, or the first throw.\<close>

fun all_or_throw :: "(exn + 'a) list \<Rightarrow> exn + 'a list" where
  "all_or_throw [] = Inr []"
| "all_or_throw (x # xs) =
     (case x of
        Inl e \<Rightarrow> Inl e
      | Inr v \<Rightarrow> (case all_or_throw xs of Inl e \<Rightarrow> Inl e | Inr vs \<Rightarrow> Inr (v # vs)))"

text \<open>
  \<^verbatim>\<open>(response.name || []).map(parse)\<close>: a truthy value that is not an array has no
  \<^verbatim>\<open>map\<close> to call, and an element that is \<^verbatim>\<open>null\<close> makes \<open>parse\<close> throw.
\<close>

definition map_response :: "(obj \<Rightarrow> exn + 'a) \<Rightarrow> string \<Rightarrow> json \<Rightarrow> exn + 'a list" where
  "map_response parse name response =
     (case response of
        JNull \<Rightarrow> Inl TypeError
      | _ \<Rightarrow>
        (case or_default (get_prop response name) (JArr []) of
           JArr xs \<Rightarrow>
             all_or_throw (map (\<lambda>x. if x = JNull then Inl TypeError else parse (fields_of x)) xs)
         | _ \<Rightarrow> Inl TypeError))"

subsection \<open>AgentsNamespace\<close>

definition agents_create :: "anchor_error + json \<Rightarrow> exn + agent" where
  "agents_create res = awaited res agent_of_response"

definition agents_get :: "anchor_error + json \<Rightarrow> exn + agent option" where
  "agents_get res = null_if_NotFound (awaited res agent_of_response)"

definition agents_list :: "anchor_error + json \<Rightarrow> exn + agent list" where
  "agents_list res = awaited res (map_response try_parseAgent ''agents'')"

definition agents_update :: "anchor_error + json \<Rightarrow> exn + agent" where
  "agents_update res = awaited res agent_of_response"

definition agents_delete :: "anchor_error + json \<Rightarrow> exn + bool" where
  "agents_delete res = awaited res (\<lambda>response. Inr True)"

definition agents_suspend :: "anchor_error + json \<Rightarrow> exn + agent" where
  "agents_suspend res = awaited res agent_of_response"

definition agents_activate :: "anchor_error + json \<Rightarrow> exn + agent" where
  "agents_activate res = awaited res agent_of_response"

subsection \<open>ConfigNamespace\<close>

definition config_get :: "anchor_error + json \<Rightarrow> exn + agent_config" where
  "config_get res = awaited res (parse_response try_parseConfig)"

definition config_update :: "anchor_error + json \<Rightarrow> exn + agent_config" where
  "config_update res = awaited res (parse_response try_parseConfig)"

definition config_versions :: "anchor_error + json \<Rightarrow> exn + config_version list" where
  "config_versions res = awaited res (map_response try_parseConfigVersion ''versions'')"

definition config_getVersion :: "anchor_error + json \<Rightarrow> exn + agent_config" where
  "config_getVersion res = awaited res (parse_response try_parseConfig)"

definition config_rollback :: "anchor_error + json \<Rightarrow> exn + agent_config" where
  "config_rollback res = awaited res (parse_response try_parseConfig)"

subsection \<open>DataNamespace\<close>

definition data_write :: "anchor_error + json \<Rightarrow> exn + write_result" where
  "data_write res = awaited res (parse_response try_parseWriteResult)"

definition data_writeBatch :: "anchor_error + json \<Rightarrow> exn + write_result list" where
  "data_writeBatch res = awaited res (map_response try_parseWriteResult ''results'')"

text \<open>\<^verbatim>\<open>return response.value ?? null\<close>, in the \<^verbatim>\<open>try\<close> of a lookup.\<close>

definition data_read :: "anchor_error + json \<Rightarrow> exn + json option" where
  "data_read res =
     null_if_NotFound (awaited res (\<lambda>response.
       case response of
         JNull \<Rightarrow> Inl TypeError
       | _ \<Rightarrow> Inr (case get_prop response ''value'' of Some v \<Rightarrow> v | None \<Rightarrow> JNull)))"

definition data_readFull :: "anchor_error + json \<Rightarrow> exn + data_entry option" where
  "data_readFull res = null_if_NotFound (awaited res (parse_response try_parseDataEntry))"

definition data_delete :: "anchor_error + json \<Rightarrow> exn + bool" where
  "data_delete res = awaited res (\<lambda>response. Inr True)"

definition data_deletePrefix :: "anchor_error + json \<Rightarrow> exn + json" where
  "data_deletePrefix res =
     awaited res (\<lambda>response.
       case response of
         JNull \<Rightarrow> Inl TypeError
       | _ \<Rightarrow> Inr (or_default (get_prop response ''deleted_count'') (JNum 0)))"

text \<open>
  \<^verbatim>\<open>(response.keys || []).map((k) => k.key || '')\<close>. When the response is an array,
  \<^verbatim>\<open>response.keys\<close> is the method \<^verbatim>\<open>keys\<close> of arrays: a function, truthy and with no
  \<^verbatim>\<open>map\<close>, and the call throws.
\<close>

definition data_list :: "anchor_error + json \<Rightarrow> exn + json list" where
  "data_list res =
     awaited res (\<lambda>response.
       case response of
         JArr xs \<Rightarrow> Inl TypeError
       | _ \<Rightarrow> map_response (\<lambda>k. Inr (or_default (map_of k ''key'') (JStr []))) ''keys'' response)"

definition data_search :: "anchor_error + json \<Rightarrow> exn + search_result list" where
  "data_search res = awaited res (map_response try_parseSearchResult ''results'')"

subsection \<open>CheckpointsNamespace\<close>

definition checkpoints_create :: "anchor_error + json \<Rightarrow> exn + checkpoint" where
  "checkpoints_create res = awaited res (parse_response try_parseCheckpoint)"

definition checkpoints_list :: "anchor_error + json \<Rightarrow> exn + checkpoint list" where
  "checkpoints_list res = awaited res (map_response try_parseCheckpoint ''checkpoints'')"

definition checkpoints_get :: "anchor_error + json \<Rightarrow> exn + checkpoint" where
  "checkpoints_get res = awaited res (parse_response try_parseCheckpoint)"

definition checkpoints_restore :: "anchor_error + json \<Rightarrow> exn + restore_result" where
  "checkpoints_restore res = awaited res (parse_response try_parseRestoreResult)"

definition checkpoints_delete :: "anchor_error + json \<Rightarrow> exn + bool" where
  "checkpoints_delete res = awaited res (\<lambda>response. Inr True)"

subsection \<open>AuditNamespace\<close>

definition audit_query :: "anchor_error + json \<Rightarrow> exn + audit_event list" where
  "audit_query res = awaited res (map_response try_parseAuditEvent ''events'')"

definition audit_get :: "anchor_error + json \<Rightarrow> exn + audit_event" where
  "audit_get res = awaited res (parse_response try_parseAuditEvent)"

definition audit_verify :: "anchor_error + json \<Rightarrow> exn + verification" where
  "audit_verify res = awaited res (parse_response try_parseVerification)"

definition audit_export :: "anchor_error + json \<Rightarrow> exn + export_result" where
  "audit_export res = awaited res (parse_response try_parseExportResult)"

section \<open>Full wire payloads\<close>

text \<open>
  The wire payload of each entity with every documented field populated, as the
  tests of the repository build them: the names are those the normalizer reads, a
  string field holds a string, a count or a score a number, a flag a boolean, a
  metadata or configuration field an object, and a timestamp its ISO-8601 text.
\<close>

definition full_Agent :: "string \<Rightarrow> string \<Rightarrow> string \<Rightarrow> obj \<Rightarrow> string \<Rightarrow> rat \<Rightarrow> rat \<Rightarrow> string \<Rightarrow> string \<Rightarrow> obj" where
  "full_Agent ident name status metadata configVersion dataCount checkpointCount createdAt updatedAt =
     [(''id'', JStr ident), (''name'', JStr name), (''status'', JStr status),
      (''metadata'', JObj metadata), (''config_version'', JStr configVersion),
      (''data_count'', JNum dataCount), (''checkpoint_count'', JNum checkpointCount),
      (''created_at'', JStr createdAt), (''updated_at'', JStr updatedAt)]"

definition full_Config :: "string \<Rightarrow> string \<Rightarrow> obj \<Rightarrow> string \<Rightarrow> string \<Rightarrow> string \<Rightarrow> string \<Rightarrow> obj" where
  "full_Config agentId version settings previousVersion createdAt createdBy auditId =
     [(''agent_id'', JStr agentId), (''version'', JStr version), (''config'', JObj settings),
      (''previous_version'', JStr previousVersion), (''created_at'', JStr createdAt),
      (''created_by'', JStr createdBy), (''audit_id'', JStr auditId)]"

definition full_ConfigVersion :: "string \<Rightarrow> string \<Rightarrow> string \<Rightarrow> string \<Rightarrow> obj" where
  "full_ConfigVersion version createdAt createdBy summary =
     [(''version'', JStr version), (''created_at'', JStr createdAt),
      (''created_by'', JStr createdBy), (''summary'', JStr summary)]"

definition full_WriteResult :: "string \<Rightarrow> bool \<Rightarrow> string \<Rightarrow> string \<Rightarrow> string \<Rightarrow> string \<Rightarrow> string \<Rightarrow> obj" where
  "full_WriteResult key allowed auditId blockedBy reason expiresAt createdAt =
     [(''key'', JStr key), (''allowed'', JBool allowed), (''audit_id'', JStr auditId),
      (''blocked_by'', JStr blockedBy), (''reason'', JStr reason),
      (''expires_at'', JStr expiresAt), (''created_at'', JStr createdAt)]"

definition full_DataEntry :: "string \<Rightarrow> string \<Rightarrow> obj \<Rightarrow> string \<Rightarrow> string \<Rightarrow> string \<Rightarrow> string \<Rightarrow> obj" where
  "full_DataEntry key val metadata createdAt updatedAt expiresAt auditId =
     [(''key'', JStr key), (''value'', JStr val), (''metadata'', JObj metadata),
      (''created_at'', JStr createdAt), (''updated_at'', JStr updatedAt),
      (''expires_at'', JStr expiresAt), (''audit_id'', JStr auditId)]"

definition full_SearchResult :: "string \<Rightarrow> string \<Rightarrow> rat \<Rightarrow> obj \<Rightarrow> obj" where
  "full_SearchResult key val similarity metadata =
     [(''key'', JStr key), (''value'', JStr val), (''similarity'', JNum similarity),
      (''metadata'', JObj metadata)]"

definition full_DataSnapshot :: "rat \<Rightarrow> rat \<Rightarrow> obj" where
  "full_DataSnapshot keyCount totalSizeBytes =
     [(''key_count'', JNum keyCount), (''total_size_bytes'', JNum totalSizeBytes)]"

definition full_Checkpoint :: "string \<Rightarrow> string \<Rightarrow> string \<Rightarrow> string \<Rightarrow> string \<Rightarrow> rat \<Rightarrow> rat \<Rightarrow> string \<Rightarrow> string \<Rightarrow> obj" where
  "full_Checkpoint ident agentId label description configVersion keyCount totalSizeBytes createdAt auditId =
     [(''id'', JStr ident), (''agent_id'', JStr agentId), (''label'', JStr label),
      (''description'', JStr description), (''config_version'', JStr configVersion),
      (''data_snapshot'', JObj (full_DataSnapshot keyCount totalSizeBytes)),
      (''created_at'', JStr createdAt), (''audit_id'', JStr auditId)]"

definition full_RestoreResult :: "string \<Rightarrow> bool \<Rightarrow> string \<Rightarrow> bool \<Rightarrow> rat \<Rightarrow> rat \<Rightarrow> string \<Rightarrow> string \<Rightarrow> obj" where
  "full_RestoreResult restoredFrom configRestored configVersion dataRestored dataKeysRestored
       dataKeysRemoved auditId restoredAt =
     [(''restored_from'', JStr restoredFrom), (''config_restored'', JBool configRestored),
      (''config_version'', JStr configVersion), (''data_restored'', JBool dataRestored),
      (''data_keys_restored'', JNum dataKeysRestored), (''data_keys_removed'', JNum dataKeysRemoved),
      (''audit_id'', JStr auditId), (''restored_at'', JStr restoredAt)]"

definition full_AuditEvent :: "string \<Rightarrow> string \<Rightarrow> string \<Rightarrow> string \<Rightarrow> string \<Rightarrow> string \<Rightarrow> string \<Rightarrow> string \<Rightarrow> string \<Rightarrow> obj \<Rightarrow> obj" where
  "full_AuditEvent ident agentId operation resource result blockedBy timestamp hash previousHash metadata =
     [(''id'', JStr ident), (''agent_id'', JStr agentId), (''operation'', JStr operation),
      (''resource'', JStr resource), (''result'', JStr result), (''blocked_by'', JStr blockedBy),
      (''timestamp'', JStr timestamp), (''hash'', JStr hash),
      (''previous_hash'', JStr previousHash), (''metadata'', JObj metadata)]"

definition full_Verification :: "bool \<Rightarrow> rat \<Rightarrow> string \<Rightarrow> string \<Rightarrow> string \<Rightarrow> obj \<Rightarrow> obj" where
  "full_Verification valid eventsChecked chainStart chainEnd verifiedAt firstInvalid =
     [(''valid'', JBool valid), (''events_checked'', JNum eventsChecked),
      (''chain_start'', JStr chainStart), (''chain_end'', JStr chainEnd),
      (''verified_at'', JStr verifiedAt), (''first_invalid'', JObj firstInvalid)]"

definition full_ExportResult :: "string \<Rightarrow> string \<Rightarrow> string \<Rightarrow> string \<Rightarrow> rat \<Rightarrow> obj \<Rightarrow> obj" where
  "full_ExportResult exportId format downloadUrl expiresAt eventCount verification =
     [(''export_id'', JStr exportId), (''format'', JStr format), (''download_url'', JStr downloadUrl),
      (''expires_at'', JStr expiresAt), (''event_count'', JNum eventCount),
      (''verification'', JObj verification)]"

section \<open>Values for the examples\<close>

text \<open>
  The body of a response whose \<^verbatim>\<open>message\<close> is an object with a \<^verbatim>\<open>toString\<close> key.
\<close>

definition unconvertible_body :: string where
  \<open>unconvertible_body = ''{"message":{"toString":"x"}}''\<close>

text \<open>
  The platform of the examples, given on the texts that the examples use: its
  \<^verbatim>\<open>JSON.parse\<close> reads the body above and rejects the texts of the examples that are
  not JSON, its \<^verbatim>\<open>Date.parse\<close> reads one ISO-8601 text and rejects the texts of the
  examples that are no dates, its numbers are the naturals in decimal, and the message
  of its \<^verbatim>\<open>TypeError\<close> is that of Node.js. On any other text it answers as if the text
  were rejected.
\<close>

definition example_platform :: platform where
  "example_platform =
     \<lparr> JSON_parse = (\<lambda>text.
         if text = unconvertible_body
         then Some (JObj [(''message'', JObj [(''toString'', JStr ''x'')])])
         else None),
       Date_parse = (\<lambda>text. if text = ''2024-01-01T00:00:00Z'' then Some 1704067200000 else None),
       Number_toString = (\<lambda>n. show_nat (nat \<lfloor>n\<rfloor>)),
       TypeError_message = ''Cannot convert object to primitive value'' \<rparr>"

text \<open>A payload that holds every timestamp field that a normalizer reads.\<close>

definition timestamp_payload :: obj where
  "timestamp_payload =
     [(''created_at'', JStr ''2024-01-01T00:00:00Z''), (''updated_at'', JStr ''2024-01-01T00:00:00Z''),
      (''expires_at'', JStr ''2024-01-01T00:00:00Z''), (''restored_at'', JStr ''2024-01-01T00:00:00Z''),
      (''timestamp'', JStr ''2024-01-01T00:00:00Z''), (''verified_at'', JStr ''2024-01-01T00:00:00Z''),
      (''verification'', JObj [(''verified_at'', JStr ''2024-01-01T00:00:00Z'')])]"

text \<open>That a parsed body contains a field at all, whatever the field holds.\<close>

definition has_field :: "json \<Rightarrow> string \<Rightarrow> bool" where
  "has_field data k = (get_prop data k \<noteq> None)"


section \<open>Classification\<close>

lemma or_default_truthy:
  "truthy a \<Longrightarrow> or_default a d = the a"
  by (cases a) (simp_all add: or_default_def)

lemma or_js_truthy_left:
  "truthy a \<Longrightarrow> or_js a b = a"
  by (simp add: or_js_def)

lemma or_js_falsy_left:
  "\<not> truthy a \<Longrightarrow> or_js a b = b"
  by (simp add: or_js_def)

lemma show_nat_400: "show_nat 400 = ''400''"
  by (simp add: show_nat.simps digit_char_def)

lemma show_nat_404: "show_nat 404 = ''404''"
  by (simp add: show_nat.simps digit_char_def)

lemma show_nat_30000: "show_nat 30000 = ''30000''"
  by (simp add: show_nat.simps digit_char_def)

text \<open>
  C1 (as amended). For every status and parsed body whose message (the body's
  \<^verbatim>\<open>message\<close>, else its \<^verbatim>\<open>error\<close>, else \<^verbatim>\<open>HTTP\<close> and the status) can be converted to a
  string, \<^verbatim>\<open>handleError\<close> throws an error of the library that carries the message, the
  status and the body, and whose class is decided first by the truthiness of the
  body's \<^verbatim>\<open>blocked_by\<close> and \<^verbatim>\<open>policy_name\<close> fields: when either holds a truthy value
  the error is a PolicyViolation for every status code, and the policy name it
  carries is \<^verbatim>\<open>blocked_by\<close> when that is truthy and \<^verbatim>\<open>policy_name\<close> otherwise.
  Otherwise 400 gives Validation with the body's \<^verbatim>\<open>field\<close>, 401 Authentication, 403
  Authorization with \<^verbatim>\<open>required_permission\<close>, 404 NotFound, 429 RateLimit with
  \<^verbatim>\<open>retry_after\<close>, 500 and above Server, and every other status the generic API
  error.
\<close>

theorem handleError_classification:
  assumes "coercible (message_of s d)"
  shows "handleError s d =
     Anchor (ApiError
       (if truthy (get_prop d ''blocked_by'') then PolicyViolationError (the (get_prop d ''blocked_by''))
        else if truthy (get_prop d ''policy_name'') then PolicyViolationError (the (get_prop d ''policy_name''))
        else if s = 400 then ValidationError (get_prop d ''field'')
        else if s = 401 then AuthenticationError
        else if s = 403 then AuthorizationError (get_prop d ''required_permission'')
        else if s = 404 then NotFoundError
        else if s = 429 then RateLimitError (get_prop d ''retry_after'')
        else if 500 \<le> s then ServerError
        else AnchorAPIError)
       (message_of s d) s (or_default (Some d) (JObj [])))"
proof -
  define m where "m = message_of s d"
  have built: "new_error cls m s d = Anchor (ApiError cls m s (or_default (Some d) (JObj [])))" for cls
    using assms by (simp add: new_error_def m_def)
  show ?thesis
    unfolding handleError_def Let_def m_def[symmetric] built
    by (simp add: or_default_truthy or_js_truthy_left or_js_falsy_left)
qed

theorem handleError_classification_witness:
  "handleError 400 (JObj [(''message'', JStr ''Blocked by policy''), (''blocked_by'', JStr ''pii_filter'')])
   = Anchor (ApiError (PolicyViolationError (JStr ''pii_filter'')) (JStr ''Blocked by policy'') 400
       (JObj [(''message'', JStr ''Blocked by policy''), (''blocked_by'', JStr ''pii_filter'')]))"
  using handleError_classification[of 400
      "JObj [(''message'', JStr ''Blocked by policy''), (''blocked_by'', JStr ''pii_filter'')]"]
  by (simp add: message_of_def or_default_def or_js_def)

text \<open>
  C1 as stated fails: a 400 body that contains a \<^verbatim>\<open>blocked_by\<close> field holding the
  empty string, or \<^verbatim>\<open>null\<close>, is classified as Validation, not PolicyViolation.
\<close>

theorem handleError_field_present_counterexample:
  "has_field (JObj [(''message'', JStr ''bad''), (''blocked_by'', JStr ''''), (''field'', JStr ''email'')]) ''blocked_by''
   \<and> handleError 400
         (JObj [(''message'', JStr ''bad''), (''blocked_by'', JStr ''''), (''field'', JStr ''email'')])
       = Anchor (ApiError (ValidationError (Some (JStr ''email''))) (JStr ''bad'') 400
           (JObj [(''message'', JStr ''bad''), (''blocked_by'', JStr ''''), (''field'', JStr ''email'')]))
   \<and> has_field (JObj [(''blocked_by'', JNull)]) ''blocked_by''
   \<and> handleError 400 (JObj [(''blocked_by'', JNull)])
       = Anchor (ApiError (ValidationError None) (JStr ''HTTP 400'') 400 (JObj [(''blocked_by'', JNull)]))"
  by (simp add: handleError_def new_error_def message_of_def has_field_def Let_def or_default_def
      or_js_def show_nat_400)

section \<open>One iteration of the loop\<close>

lemma attempts_past:
  "N < a \<Longrightarrow> attempts p w c t N d a le =
     ([], Inl (case le of Some e \<Rightarrow> e | None \<Rightarrow> NetworkError ''Request failed after retries''))"
  by (subst attempts.simps) (simp split: option.splits)

lemma attempts_setup_retry:
  "a < N \<Longrightarrow> w a = SetupThrows e \<Longrightarrow>
   attempts p w c t N d a le =
     emit [Sleep (d * 2 ^ a)] (attempts p w c t N d (Suc a) (Some (network_error_of t e)))"
  by (subst attempts.simps) simp

lemma attempts_setup_last:
  "w N = SetupThrows e \<Longrightarrow> attempts p w c t N d N le = ([], Inl (network_error_of t e))"
  by (subst attempts.simps) (simp add: attempts_past)

lemma attempts_reject_retry:
  "a < N \<Longrightarrow> w a = FetchRejects e \<Longrightarrow>
   attempts p w c t N d a le =
     emit [Fetch c, Sleep (d * 2 ^ a)] (attempts p w c t N d (Suc a) (Some (network_error_of t e)))"
  by (subst attempts.simps) simp

lemma attempts_reject_last:
  "w N = FetchRejects e \<Longrightarrow> attempts p w c t N d N le = ([Fetch c], Inl (network_error_of t e))"
  by (subst attempts.simps) (simp add: attempts_past emit_def)

lemma attempts_ok:
  "a \<le> N \<Longrightarrow> w a = FetchResolves r \<Longrightarrow> ok r \<Longrightarrow>
   attempts p w c t N d a le = ([Fetch c], Inr (parseBody (JSON_parse p) (resp_text r)))"
  by (subst attempts.simps) simp

lemma attempts_terminal:
  "a \<le> N \<Longrightarrow> w a = FetchResolves r \<Longrightarrow> \<not> ok r \<Longrightarrow> terminal_status (status_or_500 r) \<Longrightarrow>
   handleError (status_or_500 r) (parseBody (JSON_parse p) (resp_text r)) = Anchor e \<Longrightarrow>
   attempts p w c t N d a le = ([Fetch c], Inl e)"
  by (subst attempts.simps) (simp add: terminal_status_def status_or_500_def Let_def)

lemma attempts_terminal_unbuilt_retry:
  "a < N \<Longrightarrow> w a = FetchResolves r \<Longrightarrow> \<not> ok r \<Longrightarrow> terminal_status (status_or_500 r) \<Longrightarrow>
   handleError (status_or_500 r) (parseBody (JSON_parse p) (resp_text r)) = TypeError \<Longrightarrow>
   attempts p w c t N d a le =
     emit [Fetch c, Sleep (d * 2 ^ a)]
       (attempts p w c t N d (Suc a)
          (Some (network_error_of t (Thrown ''TypeError'' (TypeError_message p)))))"
  by (subst attempts.simps) (simp add: terminal_status_def status_or_500_def Let_def)

lemma attempts_unbuilt_last:
  "w N = FetchResolves r \<Longrightarrow> \<not> ok r \<Longrightarrow>
   handleError (status_or_500 r) (parseBody (JSON_parse p) (resp_text r)) = TypeError \<Longrightarrow>
   attempts p w c t N d N le =
     ([Fetch c], Inl (network_error_of t (Thrown ''TypeError'' (TypeError_message p))))"
  by (subst attempts.simps)
     (auto simp add: terminal_status_def status_or_500_def Let_def attempts_past emit_def)

lemma attempts_response_retry:
  "a < N \<Longrightarrow> w a = FetchResolves r \<Longrightarrow> \<not> ok r \<Longrightarrow> \<not> terminal_status (status_or_500 r) \<Longrightarrow>
   attempts p w c t N d a le =
     emit [Fetch c, Sleep (d * 2 ^ a)] (attempts p w c t N d (Suc a) le)"
  by (subst attempts.simps) (auto simp add: terminal_status_def status_or_500_def Let_def)

lemma attempts_response_last:
  "w N = FetchResolves r \<Longrightarrow> \<not> ok r \<Longrightarrow>
   handleError (status_or_500 r) (parseBody (JSON_parse p) (resp_text r)) = Anchor e \<Longrightarrow>
   attempts p w c t N d N le = ([Fetch c], Inl e)"
  by (subst attempts.simps) (auto simp add: terminal_status_def status_or_500_def Let_def)

section \<open>The trace of a call\<close>

lemma backoff_trace_step:
  "a < n \<Longrightarrow>
   backoff_trace w c d a n = attempt_events w c a @ [Sleep (d * 2 ^ a)] @ backoff_trace w c d (Suc a) n"
  by (simp add: backoff_trace_def upt_conv_Cons)

lemma backoff_trace_last: "backoff_trace w c d a a = attempt_events w c a"
  by (simp add: backoff_trace_def)

lemma sleeps_append: "sleeps (xs @ ys) = sleeps xs @ sleeps ys"
  by (induction xs rule: sleeps.induct) simp_all

lemma fetches_append: "fetches (xs @ ys) = fetches xs @ fetches ys"
  by (induction xs rule: fetches.induct) simp_all

lemma sleeps_attempt_events: "sleeps (attempt_events w c i) = []"
  by (simp add: attempt_events_def split: outcome.splits)

lemma fetches_attempt_events: "set (fetches (attempt_events w c i)) \<subseteq> {c}"
  by (simp add: attempt_events_def split: outcome.splits)

lemma sleeps_backoff_trace:
  "a \<le> n \<Longrightarrow> sleeps (backoff_trace w c d a n) = map (\<lambda>i. d * 2 ^ i) [a..<n]"
proof (induction "n - a" arbitrary: a)
  case 0
  then show ?case by (simp add: backoff_trace_last sleeps_attempt_events)
next
  case (Suc k)
  then have "a < n" "k = n - Suc a" "Suc a \<le> n" by simp_all
  with Suc.hyps(1)[of "Suc a"] show ?case
    by (simp add: backoff_trace_step sleeps_append sleeps_attempt_events upt_conv_Cons)
qed

lemma fetches_backoff_trace:
  "a \<le> n \<Longrightarrow> set (fetches (backoff_trace w c d a n)) \<subseteq> {c}"
proof (induction "n - a" arbitrary: a)
  case 0
  then show ?case using fetches_attempt_events[of w c a] by (simp add: backoff_trace_last)
next
  case (Suc k)
  then have "a < n" "k = n - Suc a" "Suc a \<le> n" by simp_all
  with Suc.hyps(1)[of "Suc a"] fetches_attempt_events[of w c a] show ?case
    by (simp add: backoff_trace_step fetches_append)
qed

text \<open>An iteration that is not the last and whose outcome is retried.\<close>

lemma attempts_retry:
  assumes "a < N" and "retries p (w a)"
  shows "\<exists>le'. attempts p w c t N d a le =
           emit (attempt_events w c a @ [Sleep (d * 2 ^ a)]) (attempts p w c t N d (Suc a) le')"
proof (cases "w a")
  case (SetupThrows e)
  then show ?thesis using assms(1) by (auto simp add: attempts_setup_retry attempt_events_def)
next
  case (FetchRejects e)
  then show ?thesis using assms(1) by (auto simp add: attempts_reject_retry attempt_events_def)
next
  case (FetchResolves r)
  with assms(2) have nok: "\<not> ok r"
    and alt: "\<not> terminal_status (status_or_500 r)
              \<or> handleError (status_or_500 r) (parseBody (JSON_parse p) (resp_text r)) = TypeError"
    by (simp_all add: retries_def)
  show ?thesis
  proof (cases "terminal_status (status_or_500 r)")
    case True
    with alt have "handleError (status_or_500 r) (parseBody (JSON_parse p) (resp_text r)) = TypeError"
      by simp
    with assms(1) FetchResolves nok True
    have "attempts p w c t N d a le =
            emit [Fetch c, Sleep (d * 2 ^ a)]
              (attempts p w c t N d (Suc a)
                 (Some (network_error_of t (Thrown ''TypeError'' (TypeError_message p)))))"
      by (simp add: attempts_terminal_unbuilt_retry[where r = r])
    then show ?thesis using FetchResolves by (auto simp add: attempt_events_def)
  next
    case False
    with assms(1) FetchResolves nok
    have "attempts p w c t N d a le =
            emit [Fetch c, Sleep (d * 2 ^ a)] (attempts p w c t N d (Suc a) le)"
      by (simp add: attempts_response_retry[where r = r])
    then show ?thesis using FetchResolves by (auto simp add: attempt_events_def)
  qed
qed

text \<open>An iteration that is the last, or whose outcome is not retried: the loop ends.\<close>

lemma attempts_stop:
  assumes "n \<le> N" and "n = N \<or> \<not> retries p (w n)"
  shows "fst (attempts p w c t N d n le) = attempt_events w c n"
proof (cases "w n")
  case (SetupThrows e)
  with assms have "n = N" by (auto simp add: retries_def)
  with SetupThrows show ?thesis by (simp add: attempts_setup_last attempt_events_def)
next
  case (FetchRejects e)
  with assms have "n = N" by (auto simp add: retries_def)
  with FetchRejects show ?thesis by (simp add: attempts_reject_last attempt_events_def)
next
  case (FetchResolves r)
  show ?thesis
  proof (cases "ok r")
    case True
    then show ?thesis using assms(1) FetchResolves by (simp add: attempts_ok attempt_events_def)
  next
    case nok: False
    show ?thesis
    proof (cases "handleError (status_or_500 r) (parseBody (JSON_parse p) (resp_text r))")
      case (Anchor e)
      show ?thesis
      proof (cases "terminal_status (status_or_500 r)")
        case True
        with assms(1) FetchResolves nok Anchor
        have "attempts p w c t N d n le = ([Fetch c], Inl e)"
          by (simp add: attempts_terminal[where r = r])
        then show ?thesis using FetchResolves by (simp add: attempt_events_def)
      next
        case False
        with FetchResolves nok assms(2) have "n = N" by (auto simp add: retries_def)
        with FetchResolves nok Anchor
        have "attempts p w c t N d n le = ([Fetch c], Inl e)"
          by (simp add: attempts_response_last[where r = r])
        then show ?thesis using FetchResolves by (simp add: attempt_events_def)
      qed
    next
      case TypeError
      with FetchResolves nok assms(2) have "n = N" by (auto simp add: retries_def)
      with FetchResolves nok TypeError
      have "attempts p w c t N d n le =
              ([Fetch c], Inl (network_error_of t (Thrown ''TypeError'' (TypeError_message p))))"
        by (simp add: attempts_unbuilt_last[where r = r])
      then show ?thesis using FetchResolves by (simp add: attempt_events_def)
    qed
  qed
qed

lemma attempts_prefix:
  assumes "a \<le> n" and "n \<le> N" and "\<And>i. a \<le> i \<Longrightarrow> i < n \<Longrightarrow> retries p (w i)"
  shows "\<exists>le'. attempts p w c t N d a le =
           emit (concat (map (\<lambda>i. attempt_events w c i @ [Sleep (d * 2 ^ i)]) [a..<n]))
             (attempts p w c t N d n le')"
  using assms
proof (induction "n - a" arbitrary: a le)
  case 0
  then have "a = n" by simp
  then show ?case by (auto simp add: emit_def)
next
  case (Suc k)
  then have lt: "a < n" and k: "k = n - Suc a" and le': "Suc a \<le> n" by simp_all
  from lt Suc.prems have aN: "a < N" and ra: "retries p (w a)" by simp_all
  from aN ra attempts_retry[where a = a and N = N and p = p and w = w] obtain le1 where
    1: "attempts p w c t N d a le =
          emit (attempt_events w c a @ [Sleep (d * 2 ^ a)]) (attempts p w c t N d (Suc a) le1)"
    by blast
  from Suc.hyps(1)[OF k le' Suc.prems(2)] Suc.prems(3) obtain le2 where
    2: "attempts p w c t N d (Suc a) le1 =
          emit (concat (map (\<lambda>i. attempt_events w c i @ [Sleep (d * 2 ^ i)]) [Suc a..<n]))
            (attempts p w c t N d n le2)"
    by force
  show ?case
    unfolding 1 2 using lt by (intro exI[of _ le2]) (simp add: emit_def upt_conv_Cons)
qed

lemma attempts_trace_exact:
  assumes "a \<le> n" and "n \<le> N" and "\<And>i. a \<le> i \<Longrightarrow> i < n \<Longrightarrow> retries p (w i)"
    and "n = N \<or> \<not> retries p (w n)"
  shows "fst (attempts p w c t N d a le) = backoff_trace w c d a n"
proof -
  from assms(1,2,3) attempts_prefix[where a = a and n = n and N = N and p = p and w = w]
  obtain le' where
    "attempts p w c t N d a le =
       emit (concat (map (\<lambda>i. attempt_events w c i @ [Sleep (d * 2 ^ i)]) [a..<n]))
         (attempts p w c t N d n le')"
    by blast
  then show ?thesis
    using assms(2,4) attempts_stop[where n = n and N = N and p = p and w = w]
    by (simp add: emit_def backoff_trace_def)
qed

lemma last_iteration_exists:
  "(a::nat) \<le> N \<Longrightarrow>
   \<exists>n. a \<le> n \<and> n \<le> N \<and> (\<forall>i. a \<le> i \<and> i < n \<longrightarrow> retries p (w i)) \<and> (n = N \<or> \<not> retries p (w n))"
proof (induction "N - a" arbitrary: a)
  case 0
  then show ?case by (intro exI[of _ N]) auto
next
  case (Suc k)
  show ?case
  proof (cases "retries p (w a)")
    case False
    then show ?thesis using Suc.prems by (intro exI[of _ a]) auto
  next
    case True
    from Suc have "k = N - Suc a" "Suc a \<le> N" by simp_all
    from Suc.hyps(1)[OF this] obtain n where
      n: "Suc a \<le> n" "n \<le> N" "\<forall>i. Suc a \<le> i \<and> i < n \<longrightarrow> retries p (w i)"
         "n = N \<or> \<not> retries p (w n)"
      by blast
    have "\<forall>i. a \<le> i \<and> i < n \<longrightarrow> retries p (w i)"
    proof (intro allI impI)
      fix i assume "a \<le> i \<and> i < n"
      then show "retries p (w i)" using True n(3) by (cases "i = a") auto
    qed
    with n show ?thesis by (intro exI[of _ n]) auto
  qed
qed

lemma attempts_trace:
  assumes "a \<le> N"
  shows "\<exists>n. a \<le> n \<and> n \<le> N \<and> fst (attempts p w c t N d a le) = backoff_trace w c d a n"
proof -
  from last_iteration_exists[OF assms, of p w] obtain n where
    n: "a \<le> n" "n \<le> N" "\<forall>i. a \<le> i \<and> i < n \<longrightarrow> retries p (w i)" "n = N \<or> \<not> retries p (w n)"
    by blast
  then have "fst (attempts p w c t N d a le) = backoff_trace w c d a n"
    by (intro attempts_trace_exact) auto
  with n show ?thesis by blast
qed

lemma attempts_trace_lastError:
  assumes "a \<le> N"
  shows "fst (attempts p w c t N d a le) = fst (attempts p w c t N d a le')"
proof -
  from last_iteration_exists[OF assms, of p w] obtain n where
    n: "a \<le> n" "n \<le> N" "\<forall>i. a \<le> i \<and> i < n \<longrightarrow> retries p (w i)" "n = N \<or> \<not> retries p (w n)"
    by blast
  then have "fst (attempts p w c t N d a le) = backoff_trace w c d a n"
    and "fst (attempts p w c t N d a le') = backoff_trace w c d a n"
    by (intro attempts_trace_exact; auto)+
  then show ?thesis by simp
qed

lemma attempts_all_rejected:
  "a \<le> N \<Longrightarrow> (\<And>i. a \<le> i \<Longrightarrow> i \<le> N \<Longrightarrow> w i = FetchRejects (e i)) \<Longrightarrow>
   attempts p w c t N d a le =
     (backoff_trace w c d a N, Inl (network_error_of t (e N)))"
proof (induction "N - a" arbitrary: a le)
  case 0
  then have aN: "a = N" by simp
  with 0 have "w N = FetchRejects (e N)" by simp
  then show ?case
    by (simp add: aN attempts_reject_last backoff_trace_last attempt_events_def)
next
  case (Suc k)
  then have lt: "a < N" and k: "k = N - Suc a" and le': "Suc a \<le> N" by simp_all
  have wa: "w a = FetchRejects (e a)" using Suc.prems by simp
  have "attempts p w c t N d (Suc a) (Some (network_error_of t (e a)))
        = (backoff_trace w c d (Suc a) N, Inl (network_error_of t (e N)))"
    using Suc.hyps(1)[OF k le'] Suc.prems(2) by simp
  then show ?case
    using lt wa by (simp add: attempts_reject_retry emit_def backoff_trace_step attempt_events_def)
qed

lemma fetches_all_rejected:
  "a \<le> n \<Longrightarrow> (\<And>i. a \<le> i \<Longrightarrow> i \<le> n \<Longrightarrow> w i = FetchRejects (e i)) \<Longrightarrow>
   fetches (backoff_trace w c d a n) = replicate (Suc n - a) c"
proof (induction "n - a" arbitrary: a)
  case 0
  then have "a = n" by simp
  with 0 show ?case by (simp add: backoff_trace_last attempt_events_def)
next
  case (Suc k)
  then have lt: "a < n" and k: "k = n - Suc a" and le': "Suc a \<le> n" by simp_all
  have wa: "w a = FetchRejects (e a)" using Suc.prems by simp
  have "fetches (backoff_trace w c d (Suc a) n) = replicate (Suc n - Suc a) c"
    using Suc.hyps(1)[OF k le'] Suc.prems(2) by simp
  then show ?case
    using lt wa
    by (simp add: backoff_trace_step fetches_append attempt_events_def Suc_diff_le
        flip: replicate_Suc)
qed


lemma attempts_all_unbuilt:
  "a \<le> N \<Longrightarrow> (\<And>i. w i = FetchResolves r) \<Longrightarrow> \<not> ok r \<Longrightarrow> terminal_status (status_or_500 r) \<Longrightarrow>
   handleError (status_or_500 r) (parseBody (JSON_parse p) (resp_text r)) = TypeError \<Longrightarrow>
   attempts p w c t N d a le =
     (backoff_trace w c d a N,
      Inl (network_error_of t (Thrown ''TypeError'' (TypeError_message p))))"
proof (induction "N - a" arbitrary: a le)
  case 0
  then have aN: "a = N" by simp
  from 0 show ?case
    by (simp add: aN attempts_unbuilt_last[where r = r] backoff_trace_last attempt_events_def)
next
  case (Suc k)
  then have lt: "a < N" and k: "k = N - Suc a" and le': "Suc a \<le> N" by simp_all
  have "attempts p w c t N d (Suc a)
          (Some (network_error_of t (Thrown ''TypeError'' (TypeError_message p))))
        = (backoff_trace w c d (Suc a) N,
           Inl (network_error_of t (Thrown ''TypeError'' (TypeError_message p))))"
    using Suc.hyps(1)[OF k le'] Suc.prems by simp
  then show ?case
    using lt Suc.prems
    by (simp add: attempts_terminal_unbuilt_retry[where r = r] emit_def backoff_trace_step
        attempt_events_def)
qed

lemma retryable_failure_retries: "retryable_failure oc \<Longrightarrow> retries p oc"
  by (cases oc)
     (auto simp add: retryable_failure_def retries_def ok_def terminal_status_def status_or_500_def)

lemma retryable_failure_events: "retryable_failure (w i) \<Longrightarrow> attempt_events w c i = [Fetch c]"
  by (cases "w i") (simp_all add: retryable_failure_def attempt_events_def)

lemma sleeps_backoff_prefix: "sleeps (backoff_prefix c d n) = map (\<lambda>i. d * 2 ^ i) [0..<n]"
  by (induction n) (simp_all add: backoff_prefix_def sleeps_append)

lemma backoff_trace_starts:
  "a \<le> n \<Longrightarrow> \<exists>rest. backoff_trace w c d a n = attempt_events w c a @ rest"
  by (cases "a = n") (auto simp add: backoff_trace_last backoff_trace_step)

section \<open>Backoff (C2)\<close>

text \<open>
  C2. When the attempts 0 to \<open>n - 1\<close> of a call each fail at the transport (the call
  of \<^verbatim>\<open>fetch\<close> rejects) or with a status 429 or 500 and above, and \<open>n\<close> is at most the
  number of retries, the call goes on to attempt \<open>n\<close>, and up to there its trace is:
  the call of \<^verbatim>\<open>fetch\<close> of attempt \<open>i\<close>, then a sleep of \<^verbatim>\<open>retryDelay\<close> times
  \<open>2 ^ i\<close>, for each \<open>i\<close> below \<open>n\<close>, then what attempt \<open>n\<close> does. So the sleep between
  the failed attempt \<open>i\<close> and attempt \<open>i + 1\<close> is \<^verbatim>\<open>retryDelay\<close> times \<open>2 ^ i\<close>,
  whichever of the two made attempt \<open>i\<close> fail, and the first \<open>n\<close> sleeps of the call
  are those for \<open>i = 0, 1, \<dots>, n - 1\<close>. Here \<^verbatim>\<open>retryDelay\<close> is the local of
  \<^verbatim>\<open>request\<close>: the configured delay, or 1000 when that is absent or 0.
\<close>

theorem request_backoff:
  assumes "n \<le> effective_retryAttempts cfg"
    and "\<And>i. i < n \<Longrightarrow> retryable_failure (w i)"
  shows "(\<exists>rest. fst (request cfg p w m ep data ps)
            = backoff_prefix (build_call cfg m ep data ps) (effective_retryDelay cfg) n
              @ attempt_events w (build_call cfg m ep data ps) n @ rest)
       \<and> take n (sleeps (fst (request cfg p w m ep data ps)))
           = map (\<lambda>i. effective_retryDelay cfg * 2 ^ i) [0..<n]"
proof -
  let ?c = "build_call cfg m ep data ps"
  let ?d = "effective_retryDelay cfg"
  let ?N = "effective_retryAttempts cfg"
  have retried: "retries p (w i)" if "i < n" for i
    using that assms(2) by (simp add: retryable_failure_retries)
  have prefix: "concat (map (\<lambda>i. attempt_events w ?c i @ [Sleep (?d * 2 ^ i)]) [0..<n])
        = backoff_prefix ?c ?d n"
    unfolding backoff_prefix_def using assms(2)
    by (intro arg_cong[where f = concat] map_cong) (simp_all add: retryable_failure_events)
  from assms(1) retried
    attempts_prefix[where a = 0 and n = n and N = ?N and p = p and w = w and c = ?c and d = ?d
      and t = "effective_timeout cfg" and le = None]
  obtain le' where
    run: "request cfg p w m ep data ps
            = emit (backoff_prefix ?c ?d n) (attempts p w ?c (effective_timeout cfg) ?N ?d n le')"
    unfolding request_def prefix by auto
  from assms(1) attempts_trace[where a = n and N = ?N and p = p and w = w and c = ?c and d = ?d
      and t = "effective_timeout cfg" and le = le']
  obtain n' where "n \<le> n'"
    and "fst (attempts p w ?c (effective_timeout cfg) ?N ?d n le') = backoff_trace w ?c ?d n n'"
    by auto
  with backoff_trace_starts[of n n' w ?c ?d] obtain rest where
    rest: "fst (attempts p w ?c (effective_timeout cfg) ?N ?d n le') = attempt_events w ?c n @ rest"
    by auto
  have trace: "fst (request cfg p w m ep data ps)
                 = backoff_prefix ?c ?d n @ attempt_events w ?c n @ rest"
    unfolding run by (simp add: emit_def rest)
  have "take n (sleeps (fst (request cfg p w m ep data ps))) = map (\<lambda>i. ?d * 2 ^ i) [0..<n]"
    unfolding trace by (simp add: sleeps_append sleeps_backoff_prefix)
  with trace show ?thesis by blast
qed

theorem request_backoff_witness:
  "take 3 (sleeps (fst (request
      \<lparr> cfg_apiKey = ''anc_test_key'', cfg_baseUrl = None, cfg_timeout = None,
        cfg_retryAttempts = Some 3, cfg_retryDelay = Some 100 \<rparr>
      example_platform
      (\<lambda>i. if i = 0 then FetchRejects (Thrown ''TypeError'' ''fetch failed'')
           else if i = 1 then FetchResolves \<lparr> resp_status = 503, resp_text = Some [] \<rparr>
           else if i = 2 then FetchResolves \<lparr> resp_status = 429, resp_text = Some [] \<rparr>
           else FetchResolves \<lparr> resp_status = 200, resp_text = Some [] \<rparr>)
      ''GET'' ''/agents'' None []))) = [100, 200, 400]"
proof -
  let ?w = "\<lambda>i::nat. if i = 0 then FetchRejects (Thrown ''TypeError'' ''fetch failed'')
           else if i = 1 then FetchResolves \<lparr> resp_status = 503, resp_text = Some [] \<rparr>
           else if i = 2 then FetchResolves \<lparr> resp_status = 429, resp_text = Some [] \<rparr>
           else FetchResolves \<lparr> resp_status = 200, resp_text = Some [] \<rparr>"
  have failed: "retryable_failure (?w i)" if "i < 3" for i
    using that by (simp add: retryable_failure_def)
  have upt: "[0..<3] = [0, 1, 2::nat]" by (simp add: upt_rec)
  show ?thesis
    using request_backoff[where n = 3 and w = ?w
        and cfg = "\<lparr> cfg_apiKey = ''anc_test_key'', cfg_baseUrl = None, cfg_timeout = None,
          cfg_retryAttempts = Some 3, cfg_retryDelay = Some 100 \<rparr>"
        and p = example_platform and m = "''GET''" and ep = "''/agents''" and data = None
        and ps = "[]"] failed
    by (simp add: effective_retryAttempts_def effective_retryDelay_def upt)
qed

section \<open>Client errors and retries (C3)\<close>

text \<open>
  When the response of an iteration has a status in 400..499 other than 429 and
  \<^verbatim>\<open>handleError\<close> builds its error, the loop ends there: from that iteration on it
  makes that one call of \<^verbatim>\<open>fetch\<close>, sleeps not at all, and throws the error.
\<close>

lemma client_error_terminal_when_built:
  assumes "a \<le> N" and "w a = FetchResolves r"
    and "400 \<le> resp_status r" and "resp_status r < 500" and "resp_status r \<noteq> 429"
    and "handleError (resp_status r) (parseBody (JSON_parse p) (resp_text r)) = Anchor e"
  shows "attempts p w c t N d a le = ([Fetch c], Inl e)"
proof -
  have "\<not> ok r" using assms by (simp add: ok_def)
  moreover have "status_or_500 r = resp_status r" using assms by (simp add: status_or_500_def)
  moreover have "terminal_status (resp_status r)" using assms by (simp add: terminal_status_def)
  ultimately show ?thesis
    using assms(1,2,6) by (simp add: attempts_terminal[where r = r])
qed

text \<open>
  With a message that cannot be converted, \<^verbatim>\<open>handleError\<close> builds no error: what it
  throws is the \<^verbatim>\<open>TypeError\<close> of the conversion.
\<close>

lemma handleError_unconvertible_message:
  "handleError 400 (JObj [(''message'', JObj [(''toString'', JStr ''x'')])]) = TypeError"
  by (simp add: handleError_def new_error_def message_of_def Let_def or_default_def or_js_def)

text \<open>
  C3 fails on the code. A 400 whose body is \<^verbatim>\<open>{"message":{"toString":"x"}}\<close> is
  retried: building the error throws a \<^verbatim>\<open>TypeError\<close>, which the outer \<^verbatim>\<open>catch\<close> of
  \<^verbatim>\<open>request\<close> takes for a failure of the transport. With three retries and a delay of
  100 ms the call makes four calls of \<^verbatim>\<open>fetch\<close>, sleeps 100, 200 and 400 ms, and
  throws a \<^verbatim>\<open>NetworkError\<close>, where the comment in the loop and the tests of the
  repository say that a 4xx other than 429 is not retried.
\<close>

theorem client_error_unconvertible_message_retried:
  "request
      \<lparr> cfg_apiKey = ''anc_test_key'', cfg_baseUrl = None, cfg_timeout = None,
        cfg_retryAttempts = Some 3, cfg_retryDelay = Some 100 \<rparr>
      example_platform
      (\<lambda>i. FetchResolves \<lparr> resp_status = 400, resp_text = Some unconvertible_body \<rparr>)
      ''GET'' ''/agents'' None []
   = ([Fetch (build_call \<lparr> cfg_apiKey = ''anc_test_key'', cfg_baseUrl = None, cfg_timeout = None,
                 cfg_retryAttempts = Some 3, cfg_retryDelay = Some 100 \<rparr> ''GET'' ''/agents'' None []),
       Sleep 100,
       Fetch (build_call \<lparr> cfg_apiKey = ''anc_test_key'', cfg_baseUrl = None, cfg_timeout = None,
                 cfg_retryAttempts = Some 3, cfg_retryDelay = Some 100 \<rparr> ''GET'' ''/agents'' None []),
       Sleep 200,
       Fetch (build_call \<lparr> cfg_apiKey = ''anc_test_key'', cfg_baseUrl = None, cfg_timeout = None,
                 cfg_retryAttempts = Some 3, cfg_retryDelay = Some 100 \<rparr> ''GET'' ''/agents'' None []),
       Sleep 400,
       Fetch (build_call \<lparr> cfg_apiKey = ''anc_test_key'', cfg_baseUrl = None, cfg_timeout = None,
                 cfg_retryAttempts = Some 3, cfg_retryDelay = Some 100 \<rparr> ''GET'' ''/agents'' None [])],
      Inl (NetworkError ''Request failed: Cannot convert object to primitive value''))"
proof -
  let ?r = "\<lparr> resp_status = 400, resp_text = Some unconvertible_body \<rparr>"
  have body: "parseBody (JSON_parse example_platform) (resp_text ?r)
                = JObj [(''message'', JObj [(''toString'', JStr ''x'')])]"
    by (simp add: parseBody_def example_platform_def unconvertible_body_def)
  have thrown: "handleError (status_or_500 ?r) (parseBody (JSON_parse example_platform) (resp_text ?r))
                  = TypeError"
    unfolding body
    by (simp add: status_or_500_def handleError_def new_error_def message_of_def Let_def
        or_default_def or_js_def)
  have upt: "[0..<3] = [0, 1, 2::nat]" by (simp add: upt_rec)
  show ?thesis
    unfolding request_def
    using thrown
    by (simp add: attempts_all_unbuilt[where r = ?r] ok_def terminal_status_def status_or_500_def
        effective_retryAttempts_def effective_retryDelay_def backoff_trace_def attempt_events_def
        network_error_of_def example_platform_def upt)
qed

section \<open>Exhausted retries (C4)\<close>

text \<open>
  C4. When \<^verbatim>\<open>fetch\<close> rejects on every iteration, the call makes one call of
  \<^verbatim>\<open>fetch\<close> more than there are retries, each with the same arguments, and throws a
  \<^verbatim>\<open>NetworkError\<close> whose message is made from the last rejection: \<^verbatim>\<open>Request timeout
  after\<close>, the timeout and \<^verbatim>\<open>ms\<close> when the last rejection is an \<^verbatim>\<open>AbortError\<close>, and
  \<^verbatim>\<open>Request failed: \<close> followed by the text of the last rejection otherwise.
\<close>

theorem request_all_attempts_rejected:
  assumes "\<And>i. i \<le> effective_retryAttempts cfg \<Longrightarrow> w i = FetchRejects (e i)"
  shows "fetches (fst (request cfg p w m ep data ps))
           = replicate (1 + effective_retryAttempts cfg) (build_call cfg m ep data ps)
       \<and> snd (request cfg p w m ep data ps)
           = Inl (NetworkError
               (if thrown_name (e (effective_retryAttempts cfg)) = ''AbortError''
                then ''Request timeout after '' @ show_nat (effective_timeout cfg) @ ''ms''
                else ''Request failed: '' @ thrown_text (e (effective_retryAttempts cfg))))"
  unfolding request_def
  using assms
  by (simp add: attempts_all_rejected[where e = e] fetches_all_rejected[where e = e]
      network_error_of_def)

theorem request_all_attempts_rejected_witness:
  "length (fetches (fst (request
      \<lparr> cfg_apiKey = ''anc_test_key'', cfg_baseUrl = None, cfg_timeout = None,
        cfg_retryAttempts = Some 3, cfg_retryDelay = Some 100 \<rparr>
      example_platform (\<lambda>i. FetchRejects (Thrown ''TypeError'' ''Connection failed''))
      ''GET'' ''/agents'' None []))) = 4
   \<and> snd (request
      \<lparr> cfg_apiKey = ''anc_test_key'', cfg_baseUrl = None, cfg_timeout = None,
        cfg_retryAttempts = Some 3, cfg_retryDelay = Some 100 \<rparr>
      example_platform (\<lambda>i. FetchRejects (Thrown ''TypeError'' ''Connection failed''))
      ''GET'' ''/agents'' None [])
     = Inl (NetworkError ''Request failed: Connection failed'')
   \<and> snd (request
      \<lparr> cfg_apiKey = ''anc_test_key'', cfg_baseUrl = None, cfg_timeout = None,
        cfg_retryAttempts = Some 3, cfg_retryDelay = Some 100 \<rparr>
      example_platform (\<lambda>i. FetchRejects (Thrown ''AbortError'' ''Aborted''))
      ''GET'' ''/agents'' None [])
     = Inl (NetworkError ''Request timeout after 30000ms'')"
  using request_all_attempts_rejected[where
      cfg = "\<lparr> cfg_apiKey = ''anc_test_key'', cfg_baseUrl = None, cfg_timeout = None,
         cfg_retryAttempts = Some 3, cfg_retryDelay = Some 100 \<rparr>"
      and w = "\<lambda>i. FetchRejects (Thrown ''TypeError'' ''Connection failed'')"
      and e = "\<lambda>i. Thrown ''TypeError'' ''Connection failed''" and p = example_platform
      and m = "''GET''" and ep = "''/agents''" and data = None and ps = "[]"]
    request_all_attempts_rejected[where
      cfg = "\<lparr> cfg_apiKey = ''anc_test_key'', cfg_baseUrl = None, cfg_timeout = None,
         cfg_retryAttempts = Some 3, cfg_retryDelay = Some 100 \<rparr>"
      and w = "\<lambda>i. FetchRejects (Thrown ''AbortError'' ''Aborted'')"
      and e = "\<lambda>i. Thrown ''AbortError'' ''Aborted''" and p = example_platform
      and m = "''GET''" and ep = "''/agents''" and data = None and ps = "[]"]
  by (simp add: effective_retryAttempts_def effective_timeout_def show_nat_30000)

section \<open>The body of a response (C5)\<close>

lemma request_reaches:
  assumes "a \<le> effective_retryAttempts cfg" and "\<And>i. i < a \<Longrightarrow> retries p (w i)"
  shows "\<exists>le'. snd (request cfg p w m ep data ps)
           = snd (attempts p w (build_call cfg m ep data ps) (effective_timeout cfg)
                    (effective_retryAttempts cfg) (effective_retryDelay cfg) a le')"
proof -
  from assms
    attempts_prefix[where a = 0 and n = a and N = "effective_retryAttempts cfg" and p = p
      and w = w and c = "build_call cfg m ep data ps" and d = "effective_retryDelay cfg"
      and t = "effective_timeout cfg" and le = None]
  obtain le' where
    "request cfg p w m ep data ps
       = emit (concat (map (\<lambda>i. attempt_events w (build_call cfg m ep data ps) i
                               @ [Sleep (effective_retryDelay cfg * 2 ^ i)]) [0..<a]))
           (attempts p w (build_call cfg m ep data ps) (effective_timeout cfg)
              (effective_retryAttempts cfg) (effective_retryDelay cfg) a le')"
    unfolding request_def by auto
  then show ?thesis by (intro exI[of _ le']) (simp add: emit_def)
qed

text \<open>
  C5. Whatever iteration of the loop receives a response (the first, or one reached
  after retries), the text of its body becomes a value by one total rule: no text or
  the empty text gives the empty object, a text that \<^verbatim>\<open>JSON.parse\<close> rejects gives an
  object whose \<^verbatim>\<open>error\<close> is the text, and any other text gives what \<^verbatim>\<open>JSON.parse\<close>
  returns. When the response is a success the call returns that value, so the empty
  object for an empty body; when it is an error that ends the call, the error thrown is
  the one \<^verbatim>\<open>handleError\<close> builds from that value.
\<close>

theorem request_body_rule:
  assumes "a \<le> effective_retryAttempts cfg"
    and "\<And>i. i < a \<Longrightarrow> retries p (w i)"
    and "w a = FetchResolves r"
  shows "(ok r \<longrightarrow>
            snd (request cfg p w m ep data ps) =
              Inr (case resp_text r of
                     None \<Rightarrow> JObj []
                   | Some text \<Rightarrow>
                       if text = [] then JObj []
                       else (case JSON_parse p text of
                               Some v \<Rightarrow> v
                             | None \<Rightarrow> JObj [(''error'', JStr text)])))
       \<and> (\<not> ok r \<and> (terminal_status (status_or_500 r) \<or> a = effective_retryAttempts cfg)
            \<and> handleError (status_or_500 r)
                 (case resp_text r of
                    None \<Rightarrow> JObj []
                  | Some text \<Rightarrow>
                      if text = [] then JObj []
                      else (case JSON_parse p text of
                              Some v \<Rightarrow> v
                            | None \<Rightarrow> JObj [(''error'', JStr text)])) = Anchor e
            \<longrightarrow> snd (request cfg p w m ep data ps) = Inl e)"
proof -
  let ?N = "effective_retryAttempts cfg"
  have rule: "(case resp_text r of
                 None \<Rightarrow> JObj []
               | Some text \<Rightarrow>
                   if text = [] then JObj []
                   else (case JSON_parse p text of
                           Some v \<Rightarrow> v
                         | None \<Rightarrow> JObj [(''error'', JStr text)]))
              = parseBody (JSON_parse p) (resp_text r)"
    by (simp add: parseBody_def split: option.splits)
  from request_reaches[OF assms(1), of p w m ep data ps] assms(2) obtain le' where
    reach: "snd (request cfg p w m ep data ps)
              = snd (attempts p w (build_call cfg m ep data ps) (effective_timeout cfg) ?N
                       (effective_retryDelay cfg) a le')"
    by auto
  have success: "snd (request cfg p w m ep data ps) = Inr (parseBody (JSON_parse p) (resp_text r))"
    if "ok r"
    unfolding reach using that assms(1,3) by (simp add: attempts_ok[where r = r])
  have failure: "snd (request cfg p w m ep data ps) = Inl e"
    if "\<not> ok r" and "terminal_status (status_or_500 r) \<or> a = ?N"
      and "handleError (status_or_500 r) (parseBody (JSON_parse p) (resp_text r)) = Anchor e"
  proof (cases "terminal_status (status_or_500 r)")
    case True
    then show ?thesis
      unfolding reach using that assms(1,3) by (simp add: attempts_terminal[where r = r])
  next
    case False
    with that(2) have "a = ?N" by simp
    then show ?thesis
      unfolding reach using that assms(3) by (simp add: attempts_response_last[where r = r])
  qed
  show ?thesis unfolding rule using success failure by blast
qed

theorem request_body_rule_witness:
  "snd (request \<lparr> cfg_apiKey = ''anc_test_key'', cfg_baseUrl = None, cfg_timeout = None,
             cfg_retryAttempts = Some 3, cfg_retryDelay = Some 100 \<rparr>
     example_platform
     (\<lambda>i. if i = 0 then FetchResolves \<lparr> resp_status = 429, resp_text = Some [] \<rparr>
          else FetchResolves \<lparr> resp_status = 200, resp_text = Some [] \<rparr>)
     ''GET'' ''/agents'' None []) = Inr (JObj [])
   \<and> snd (request \<lparr> cfg_apiKey = ''anc_test_key'', cfg_baseUrl = None, cfg_timeout = None,
             cfg_retryAttempts = Some 3, cfg_retryDelay = Some 100 \<rparr>
     example_platform
     (\<lambda>i. FetchResolves \<lparr> resp_status = 200, resp_text = Some ''plain text response'' \<rparr>)
     ''GET'' ''/agents'' None []) = Inr (JObj [(''error'', JStr ''plain text response'')])
   \<and> snd (request \<lparr> cfg_apiKey = ''anc_test_key'', cfg_baseUrl = None, cfg_timeout = None,
             cfg_retryAttempts = Some 3, cfg_retryDelay = Some 100 \<rparr>
     example_platform
     (\<lambda>i. FetchResolves \<lparr> resp_status = 404, resp_text = Some ''Not Found'' \<rparr>)
     ''GET'' ''/agents/agent_123'' None [])
     = Inl (ApiError NotFoundError (JStr ''Not Found'') 404 (JObj [(''error'', JStr ''Not Found'')]))"
proof -
  let ?cfg = "\<lparr> cfg_apiKey = ''anc_test_key'', cfg_baseUrl = None, cfg_timeout = None,
             cfg_retryAttempts = Some 3, cfg_retryDelay = Some 100 \<rparr>"
  let ?w = "\<lambda>i::nat. if i = 0 then FetchResolves \<lparr> resp_status = 429, resp_text = Some [] \<rparr>
          else FetchResolves \<lparr> resp_status = 200, resp_text = Some [] \<rparr>"
  have retried: "retries example_platform (?w i)" if "i < 1" for i
    using that by (simp add: retries_def ok_def terminal_status_def status_or_500_def)
  have first: "snd (request ?cfg example_platform ?w ''GET'' ''/agents'' None []) = Inr (JObj [])"
    using request_body_rule[where a = 1 and w = ?w and cfg = ?cfg and p = example_platform
        and r = "\<lparr> resp_status = 200, resp_text = Some [] \<rparr>" and m = "''GET''"
        and ep = "''/agents''" and data = None and ps = "[]"] retried
    by (simp add: effective_retryAttempts_def ok_def)
  have second: "snd (request ?cfg example_platform
        (\<lambda>i. FetchResolves \<lparr> resp_status = 200, resp_text = Some ''plain text response'' \<rparr>)
        ''GET'' ''/agents'' None []) = Inr (JObj [(''error'', JStr ''plain text response'')])"
    using request_body_rule[where a = 0 and cfg = ?cfg and p = example_platform
        and w = "\<lambda>i. FetchResolves \<lparr> resp_status = 200, resp_text = Some ''plain text response'' \<rparr>"
        and r = "\<lparr> resp_status = 200, resp_text = Some ''plain text response'' \<rparr>"
        and m = "''GET''" and ep = "''/agents''" and data = None and ps = "[]"]
    by (simp add: ok_def example_platform_def unconvertible_body_def)
  have built: "handleError 404 (JObj [(''error'', JStr ''Not Found'')])
        = Anchor (ApiError NotFoundError (JStr ''Not Found'') 404 (JObj [(''error'', JStr ''Not Found'')]))"
    by (simp add: handleError_def new_error_def message_of_def Let_def or_default_def or_js_def)
  have third: "snd (request ?cfg example_platform
        (\<lambda>i. FetchResolves \<lparr> resp_status = 404, resp_text = Some ''Not Found'' \<rparr>)
        ''GET'' ''/agents/agent_123'' None [])
        = Inl (ApiError NotFoundError (JStr ''Not Found'') 404 (JObj [(''error'', JStr ''Not Found'')]))"
    using request_body_rule[where a = 0 and cfg = ?cfg and p = example_platform
        and w = "\<lambda>i. FetchResolves \<lparr> resp_status = 404, resp_text = Some ''Not Found'' \<rparr>"
        and r = "\<lparr> resp_status = 404, resp_text = Some ''Not Found'' \<rparr>"
        and m = "''GET''" and ep = "''/agents/agent_123''" and data = None and ps = "[]"
        and e = "ApiError NotFoundError (JStr ''Not Found'') 404 (JObj [(''error'', JStr ''Not Found'')])"]
      built
    by (simp add: ok_def terminal_status_def status_or_500_def example_platform_def
        unconvertible_body_def)
  from first second third show ?thesis by simp
qed


section \<open>The headers of a request (C9)\<close>

lemma request_fetches_same_call:
  "set (fetches (fst (request cfg jp w m ep data ps))) \<subseteq> {build_call cfg m ep data ps}"
proof -
  obtain n where
    "fst (request cfg jp w m ep data ps)
       = backoff_trace w (build_call cfg m ep data ps) (effective_retryDelay cfg) 0 n"
    unfolding request_def
    using attempts_trace[where a = 0 and N = "effective_retryAttempts cfg" and p = jp and w = w
            and c = "build_call cfg m ep data ps" and t = "effective_timeout cfg"
            and d = "effective_retryDelay cfg" and le = None]
    by auto
  then show ?thesis
    using fetches_backoff_trace[of 0 n w "build_call cfg m ep data ps" "effective_retryDelay cfg"]
    by simp
qed

text \<open>
  C9 (as amended). Every call of \<^verbatim>\<open>fetch\<close> that a call of \<^verbatim>\<open>request\<close> makes has the
  same arguments, those built before the loop, and so the same headers on every
  attempt. The headers have \<^verbatim>\<open>User-Agent\<close>, the client's name and version; they
  have \<^verbatim>\<open>X-API-Key\<close>, with the configured key, exactly when the configured key is
  not the empty string; and they have \<^verbatim>\<open>Content-Type: application/json\<close> exactly
  when a body is sent.
\<close>

theorem request_headers:
  assumes "c \<in> set (fetches (fst (request cfg jp w m ep data ps)))"
  shows "c = build_call cfg m ep data ps
       \<and> map_of (call_headers c) ''User-Agent'' = Some ''anchorai-typescript/1.0.0''
       \<and> map_of (call_headers c) ''X-API-Key''
           = (if cfg_apiKey cfg \<noteq> [] then Some (cfg_apiKey cfg) else None)
       \<and> map_of (call_headers c) ''Content-Type''
           = (if call_body c \<noteq> None then Some ''application/json'' else None)"
proof -
  have c: "c = build_call cfg m ep data ps"
    using assms request_fetches_same_call[of cfg jp w m ep data ps] by auto
  show ?thesis
    unfolding c by (cases data) (simp_all add: build_call_def build_headers_def)
qed

theorem request_headers_witness:
  "build_call \<lparr> cfg_apiKey = ''anc_test_key'', cfg_baseUrl = None, cfg_timeout = None,
                cfg_retryAttempts = Some 3, cfg_retryDelay = Some 100 \<rparr>
      ''POST'' ''/agents'' (Some [(''name'', JStr ''bot'')]) []
    \<in> set (fetches (fst (request
        \<lparr> cfg_apiKey = ''anc_test_key'', cfg_baseUrl = None, cfg_timeout = None,
          cfg_retryAttempts = Some 3, cfg_retryDelay = Some 100 \<rparr>
        example_platform (\<lambda>i. FetchResolves \<lparr> resp_status = 200, resp_text = Some [] \<rparr>)
        ''POST'' ''/agents'' (Some [(''name'', JStr ''bot'')]) [])))
   \<and> map_of (call_headers (build_call
        \<lparr> cfg_apiKey = ''anc_test_key'', cfg_baseUrl = None, cfg_timeout = None,
          cfg_retryAttempts = Some 3, cfg_retryDelay = Some 100 \<rparr>
        ''POST'' ''/agents'' (Some [(''name'', JStr ''bot'')]) [])) ''X-API-Key''
     = Some ''anc_test_key''
   \<and> map_of (call_headers (build_call
        \<lparr> cfg_apiKey = ''anc_test_key'', cfg_baseUrl = None, cfg_timeout = None,
          cfg_retryAttempts = Some 3, cfg_retryDelay = Some 100 \<rparr>
        ''POST'' ''/agents'' (Some [(''name'', JStr ''bot'')]) [])) ''Content-Type''
     = Some ''application/json''"
proof -
  let ?cfg = "\<lparr> cfg_apiKey = ''anc_test_key'', cfg_baseUrl = None, cfg_timeout = None,
          cfg_retryAttempts = Some 3, cfg_retryDelay = Some 100 \<rparr>"
  let ?w = "\<lambda>i::nat. FetchResolves \<lparr> resp_status = 200, resp_text = Some [] \<rparr>"
  let ?c = "build_call ?cfg ''POST'' ''/agents'' (Some [(''name'', JStr ''bot'')]) []"
  have mem: "?c \<in> set (fetches (fst (request ?cfg example_platform ?w ''POST'' ''/agents''
                 (Some [(''name'', JStr ''bot'')]) [])))"
    unfolding request_def
    by (simp add: attempts_ok[where r = "\<lparr> resp_status = 200, resp_text = Some [] \<rparr>"] ok_def)
  have body: "call_body ?c \<noteq> None"
    by (simp add: build_call_def)
  have "map_of (call_headers ?c) ''X-API-Key''
          = (if cfg_apiKey ?cfg \<noteq> [] then Some (cfg_apiKey ?cfg) else None)"
    and "map_of (call_headers ?c) ''Content-Type''
          = (if call_body ?c \<noteq> None then Some ''application/json'' else None)"
    using request_headers[OF mem] by blast+
  with mem body show ?thesis by simp
qed

text \<open>
  C9 as stated fails: a client configured with no key (the empty string that
  \<^verbatim>\<open>normalizeConfig\<close> gives it) sends its request without \<^verbatim>\<open>X-API-Key\<close>.
\<close>

theorem request_no_api_key_counterexample:
  "fetches (fst (request
      \<lparr> cfg_apiKey = [], cfg_baseUrl = None, cfg_timeout = None,
        cfg_retryAttempts = Some 3, cfg_retryDelay = Some 100 \<rparr>
      example_platform (\<lambda>i. FetchResolves \<lparr> resp_status = 200, resp_text = Some [] \<rparr>)
      ''GET'' ''/agents'' None []))
   = [\<lparr> call_url = \<lparr> url_target = ''https://api.getanchor.dev/agents'', url_query = [] \<rparr>,
        call_method = ''GET'',
        call_headers = [(''User-Agent'', ''anchorai-typescript/1.0.0'')],
        call_body = None \<rparr>]
   \<and> map_of [(''User-Agent'', ''anchorai-typescript/1.0.0'')] ''X-API-Key'' = None"
  unfolding request_def
  by (simp add: attempts_ok[where r = "\<lparr> resp_status = 200, resp_text = Some [] \<rparr>"] ok_def
      build_call_def build_headers_def build_query_def effective_baseUrl_def)

section \<open>Errors through the facades (C6)\<close>

lemma awaited_error: "awaited (Inl e) rest = Inl (Anchor e)"
  by (simp add: awaited_def)

lemma lookup_error:
  "null_if_NotFound (Inl (Anchor e)) = (if is_NotFoundError e then Inr None else Inl (Anchor e))"
  by (simp add: null_if_NotFound_def)

text \<open>
  C6. When the call of the pipeline throws the error \<open>e\<close>: \<^verbatim>\<open>agents.get\<close>,
  \<^verbatim>\<open>data.read\<close> and \<^verbatim>\<open>data.readFull\<close> return \<^verbatim>\<open>null\<close> if \<open>e\<close> is a
  \<^verbatim>\<open>NotFoundError\<close> and throw \<open>e\<close> itself otherwise; each of the other twenty-six
  methods of the five namespaces throws \<open>e\<close> itself, a \<^verbatim>\<open>NotFoundError\<close> included.
\<close>

theorem facades_propagate_errors:
  "agents_get (Inl e) = (if is_NotFoundError e then Inr None else Inl (Anchor e))
   \<and> data_read (Inl e) = (if is_NotFoundError e then Inr None else Inl (Anchor e))
   \<and> data_readFull (Inl e) = (if is_NotFoundError e then Inr None else Inl (Anchor e))
   \<and> agents_create (Inl e) = Inl (Anchor e)
   \<and> agents_list (Inl e) = Inl (Anchor e)
   \<and> agents_update (Inl e) = Inl (Anchor e)
   \<and> agents_delete (Inl e) = Inl (Anchor e)
   \<and> agents_suspend (Inl e) = Inl (Anchor e)
   \<and> agents_activate (Inl e) = Inl (Anchor e)
   \<and> config_get (Inl e) = Inl (Anchor e)
   \<and> config_update (Inl e) = Inl (Anchor e)
   \<and> config_versions (Inl e) = Inl (Anchor e)
   \<and> config_getVersion (Inl e) = Inl (Anchor e)
   \<and> config_rollback (Inl e) = Inl (Anchor e)
   \<and> data_write (Inl e) = Inl (Anchor e)
   \<and> data_writeBatch (Inl e) = Inl (Anchor e)
   \<and> data_delete (Inl e) = Inl (Anchor e)
   \<and> data_deletePrefix (Inl e) = Inl (Anchor e)
   \<and> data_list (Inl e) = Inl (Anchor e)
   \<and> data_search (Inl e) = Inl (Anchor e)
   \<and> checkpoints_create (Inl e) = Inl (Anchor e)
   \<and> checkpoints_list (Inl e) = Inl (Anchor e)
   \<and> checkpoints_get (Inl e) = Inl (Anchor e)
   \<and> checkpoints_restore (Inl e) = Inl (Anchor e)
   \<and> checkpoints_delete (Inl e) = Inl (Anchor e)
   \<and> audit_query (Inl e) = Inl (Anchor e)
   \<and> audit_get (Inl e) = Inl (Anchor e)
   \<and> audit_verify (Inl e) = Inl (Anchor e)
   \<and> audit_export (Inl e) = Inl (Anchor e)"
  unfolding agents_get_def data_read_def data_readFull_def agents_create_def agents_list_def
    agents_update_def agents_delete_def agents_suspend_def agents_activate_def config_get_def
    config_update_def config_versions_def config_getVersion_def config_rollback_def
    data_write_def data_writeBatch_def data_delete_def data_deletePrefix_def data_list_def
    data_search_def checkpoints_create_def checkpoints_list_def checkpoints_get_def
    checkpoints_restore_def checkpoints_delete_def audit_query_def audit_get_def
    audit_verify_def audit_export_def
  by (simp only: awaited_error lookup_error simp_thms)

section \<open>The allowed flag of a write result (C10)\<close>

text \<open>
  C10. The \<^verbatim>\<open>allowed\<close> of a normalized write result is true unless the wire field
  \<^verbatim>\<open>allowed\<close> is the boolean \<^verbatim>\<open>false\<close>; a payload with no \<^verbatim>\<open>allowed\<close> at all, the
  empty payload among them, gives true.
\<close>

theorem parseWriteResult_allowed:
  "WriteResult_allowed (parseWriteResult d) = (map_of d ''allowed'' \<noteq> Some (JBool False))
   \<and> WriteResult_allowed (parseWriteResult []) = True
   \<and> WriteResult_allowed (parseWriteResult [(''key'', JStr ''k''), (''allowed'', JNull)]) = True
   \<and> WriteResult_allowed (parseWriteResult [(''key'', JStr ''k''), (''allowed'', JBool False)]) = False"
  by (simp add: parseWriteResult_def)

section \<open>Timestamps (C7)\<close>

lemma date_of_rule: "date_of v = (if truthy v then Some (NewDate (the v)) else None)"
  by (cases v) (simp_all add: date_of_def)

text \<open>
  C7 (as amended). On every wire payload on which a normalizer returns, each
  timestamp field of the entity is read from its wire field (the \<^verbatim>\<open>*_at\<close> field of the
  same name; \<^verbatim>\<open>timestamp\<close> for an audit event) by one rule: it is absent when the wire
  field is missing or holds a falsy value (\<^verbatim>\<open>null\<close>, \<^verbatim>\<open>false\<close>, 0 or the empty
  string), and it is otherwise the \<^verbatim>\<open>Date\<close> object constructed from the wire value:
  never the wire value itself, never a default date. The date constructed from a text
  has the time value that \<^verbatim>\<open>Date.parse\<close> gives the text: it is a valid instant exactly
  when \<^verbatim>\<open>Date.parse\<close> recognises the text, and an Invalid Date otherwise. The
  verification nested in an export result follows the same rule.
\<close>

theorem timestamps_parsed_or_absent:
  "date_of v = (if truthy v then Some (NewDate (the v)) else None)
   \<and> time_value p (NewDate (JStr s)) = Date_parse p s
   \<and> (\<forall>x. try_parseAgent d = Inr x \<longrightarrow>
         Agent_createdAt x = date_of (map_of d ''created_at'')
         \<and> Agent_updatedAt x = date_of (map_of d ''updated_at''))
   \<and> (\<forall>x. try_parseConfig d = Inr x \<longrightarrow>
         Config_createdAt x = date_of (map_of d ''created_at''))
   \<and> (\<forall>x. try_parseConfigVersion d = Inr x \<longrightarrow>
         ConfigVersion_createdAt x = date_of (map_of d ''created_at''))
   \<and> (\<forall>x. try_parseWriteResult d = Inr x \<longrightarrow>
         WriteResult_expiresAt x = date_of (map_of d ''expires_at'')
         \<and> WriteResult_createdAt x = date_of (map_of d ''created_at''))
   \<and> (\<forall>x. try_parseDataEntry d = Inr x \<longrightarrow>
         DataEntry_createdAt x = date_of (map_of d ''created_at'')
         \<and> DataEntry_updatedAt x = date_of (map_of d ''updated_at'')
         \<and> DataEntry_expiresAt x = date_of (map_of d ''expires_at''))
   \<and> (\<forall>x. try_parseCheckpoint d = Inr x \<longrightarrow>
         Checkpoint_createdAt x = date_of (map_of d ''created_at''))
   \<and> (\<forall>x. try_parseRestoreResult d = Inr x \<longrightarrow>
         RestoreResult_restoredAt x = date_of (map_of d ''restored_at''))
   \<and> (\<forall>x. try_parseAuditEvent d = Inr x \<longrightarrow>
         AuditEvent_timestamp x = date_of (map_of d ''timestamp''))
   \<and> (\<forall>x. try_parseVerification d = Inr x \<longrightarrow>
         Verification_verifiedAt x = date_of (map_of d ''verified_at''))
   \<and> (\<forall>x. try_parseExportResult d = Inr x \<longrightarrow>
         ExportResult_expiresAt x = date_of (map_of d ''expires_at'')
         \<and> map_option Verification_verifiedAt (ExportResult_verification x)
             = (if truthy (map_of d ''verification'')
                then Some (date_of (map_of (fields_of (the (map_of d ''verification''))) ''verified_at''))
                else None))"
proof -
  have nested:
    "map_option Verification_verifiedAt (ExportResult_verification (parseExportResult d))
       = (if truthy (map_of d ''verification'')
          then Some (date_of (map_of (fields_of (the (map_of d ''verification''))) ''verified_at''))
          else None)"
    by (cases "map_of d ''verification''") (simp_all add: parseExportResult_def parseVerification_def)
  have of_agent: "Agent_createdAt x = date_of (map_of d ''created_at'')
      \<and> Agent_updatedAt x = date_of (map_of d ''updated_at'')" if "try_parseAgent d = Inr x" for x
    using that by (auto simp add: try_parseAgent_def parseAgent_def split: if_splits)
  have of_config: "Config_createdAt x = date_of (map_of d ''created_at'')"
    if "try_parseConfig d = Inr x" for x
    using that by (auto simp add: try_parseConfig_def parseConfig_def split: if_splits)
  have of_version: "ConfigVersion_createdAt x = date_of (map_of d ''created_at'')"
    if "try_parseConfigVersion d = Inr x" for x
    using that by (auto simp add: try_parseConfigVersion_def parseConfigVersion_def split: if_splits)
  have of_write: "WriteResult_expiresAt x = date_of (map_of d ''expires_at'')
      \<and> WriteResult_createdAt x = date_of (map_of d ''created_at'')"
    if "try_parseWriteResult d = Inr x" for x
    using that by (auto simp add: try_parseWriteResult_def parseWriteResult_def split: if_splits)
  have of_entry: "DataEntry_createdAt x = date_of (map_of d ''created_at'')
      \<and> DataEntry_updatedAt x = date_of (map_of d ''updated_at'')
      \<and> DataEntry_expiresAt x = date_of (map_of d ''expires_at'')"
    if "try_parseDataEntry d = Inr x" for x
    using that by (auto simp add: try_parseDataEntry_def parseDataEntry_def split: if_splits)
  have of_checkpoint: "Checkpoint_createdAt x = date_of (map_of d ''created_at'')"
    if "try_parseCheckpoint d = Inr x" for x
    using that by (auto simp add: try_parseCheckpoint_def parseCheckpoint_def split: if_splits)
  have of_restore: "RestoreResult_restoredAt x = date_of (map_of d ''restored_at'')"
    if "try_parseRestoreResult d = Inr x" for x
    using that by (auto simp add: try_parseRestoreResult_def parseRestoreResult_def split: if_splits)
  have of_event: "AuditEvent_timestamp x = date_of (map_of d ''timestamp'')"
    if "try_parseAuditEvent d = Inr x" for x
    using that by (auto simp add: try_parseAuditEvent_def parseAuditEvent_def split: if_splits)
  have of_verify: "Verification_verifiedAt x = date_of (map_of d ''verified_at'')"
    if "try_parseVerification d = Inr x" for x
    using that by (auto simp add: try_parseVerification_def parseVerification_def split: if_splits)
  have of_export: "ExportResult_expiresAt x = date_of (map_of d ''expires_at'')
      \<and> map_option Verification_verifiedAt (ExportResult_verification x)
          = (if truthy (map_of d ''verification'')
             then Some (date_of (map_of (fields_of (the (map_of d ''verification''))) ''verified_at''))
             else None)"
    if "try_parseExportResult d = Inr x" for x
  proof -
    from that have x: "x = parseExportResult d"
      by (simp add: try_parseExportResult_def split: if_splits)
    show ?thesis unfolding x using nested by (simp add: parseExportResult_def)
  qed
  have tv: "time_value p (NewDate (JStr s)) = Date_parse p s" by simp
  from date_of_rule[of v] tv of_agent of_config of_version of_write of_entry of_checkpoint of_restore of_event of_verify of_export
  show ?thesis by blast
qed

theorem timestamps_parsed_or_absent_witness:
  "Agent_createdAt (parseAgent timestamp_payload) = Some (NewDate (JStr ''2024-01-01T00:00:00Z''))
   \<and> Agent_updatedAt (parseAgent timestamp_payload) = Some (NewDate (JStr ''2024-01-01T00:00:00Z''))
   \<and> Config_createdAt (parseConfig timestamp_payload) = Some (NewDate (JStr ''2024-01-01T00:00:00Z''))
   \<and> ConfigVersion_createdAt (parseConfigVersion timestamp_payload) = Some (NewDate (JStr ''2024-01-01T00:00:00Z''))
   \<and> WriteResult_expiresAt (parseWriteResult timestamp_payload) = Some (NewDate (JStr ''2024-01-01T00:00:00Z''))
   \<and> WriteResult_createdAt (parseWriteResult timestamp_payload) = Some (NewDate (JStr ''2024-01-01T00:00:00Z''))
   \<and> DataEntry_createdAt (parseDataEntry timestamp_payload) = Some (NewDate (JStr ''2024-01-01T00:00:00Z''))
   \<and> DataEntry_updatedAt (parseDataEntry timestamp_payload) = Some (NewDate (JStr ''2024-01-01T00:00:00Z''))
   \<and> DataEntry_expiresAt (parseDataEntry timestamp_payload) = Some (NewDate (JStr ''2024-01-01T00:00:00Z''))
   \<and> Checkpoint_createdAt (parseCheckpoint timestamp_payload) = Some (NewDate (JStr ''2024-01-01T00:00:00Z''))
   \<and> RestoreResult_restoredAt (parseRestoreResult timestamp_payload) = Some (NewDate (JStr ''2024-01-01T00:00:00Z''))
   \<and> AuditEvent_timestamp (parseAuditEvent timestamp_payload) = Some (NewDate (JStr ''2024-01-01T00:00:00Z''))
   \<and> Verification_verifiedAt (parseVerification timestamp_payload) = Some (NewDate (JStr ''2024-01-01T00:00:00Z''))
   \<and> ExportResult_expiresAt (parseExportResult timestamp_payload) = Some (NewDate (JStr ''2024-01-01T00:00:00Z''))
   \<and> map_option Verification_verifiedAt (ExportResult_verification (parseExportResult timestamp_payload))
       = Some (Some (NewDate (JStr ''2024-01-01T00:00:00Z'')))
   \<and> time_value example_platform (NewDate (JStr ''2024-01-01T00:00:00Z'')) = Some 1704067200000"
proof -
  have returns:
    "try_parseAgent timestamp_payload = Inr (parseAgent timestamp_payload)"
    "try_parseConfig timestamp_payload = Inr (parseConfig timestamp_payload)"
    "try_parseConfigVersion timestamp_payload = Inr (parseConfigVersion timestamp_payload)"
    "try_parseWriteResult timestamp_payload = Inr (parseWriteResult timestamp_payload)"
    "try_parseDataEntry timestamp_payload = Inr (parseDataEntry timestamp_payload)"
    "try_parseCheckpoint timestamp_payload = Inr (parseCheckpoint timestamp_payload)"
    "try_parseRestoreResult timestamp_payload = Inr (parseRestoreResult timestamp_payload)"
    "try_parseAuditEvent timestamp_payload = Inr (parseAuditEvent timestamp_payload)"
    "try_parseVerification timestamp_payload = Inr (parseVerification timestamp_payload)"
    "try_parseExportResult timestamp_payload = Inr (parseExportResult timestamp_payload)"
    by (simp_all add: timestamp_payload_def date_throws_def try_parseAgent_def try_parseConfig_def try_parseConfigVersion_def try_parseWriteResult_def try_parseDataEntry_def try_parseCheckpoint_def try_parseRestoreResult_def try_parseAuditEvent_def try_parseVerification_def try_parseExportResult_def)
  have wire:
    "date_of (map_of timestamp_payload ''created_at'') = Some (NewDate (JStr ''2024-01-01T00:00:00Z''))"
    "date_of (map_of timestamp_payload ''updated_at'') = Some (NewDate (JStr ''2024-01-01T00:00:00Z''))"
    "date_of (map_of timestamp_payload ''expires_at'') = Some (NewDate (JStr ''2024-01-01T00:00:00Z''))"
    "date_of (map_of timestamp_payload ''restored_at'') = Some (NewDate (JStr ''2024-01-01T00:00:00Z''))"
    "date_of (map_of timestamp_payload ''timestamp'') = Some (NewDate (JStr ''2024-01-01T00:00:00Z''))"
    "date_of (map_of timestamp_payload ''verified_at'') = Some (NewDate (JStr ''2024-01-01T00:00:00Z''))"
    "truthy (map_of timestamp_payload ''verification'')"
    "date_of (map_of (fields_of (the (map_of timestamp_payload ''verification''))) ''verified_at'')
       = Some (NewDate (JStr ''2024-01-01T00:00:00Z''))"
    by (simp_all add: timestamp_payload_def date_of_def)
  have parsed: "Date_parse example_platform ''2024-01-01T00:00:00Z'' = Some 1704067200000"
    by (simp add: example_platform_def)
  from timestamps_parsed_or_absent[of _ example_platform "''2024-01-01T00:00:00Z''" timestamp_payload] returns
  show ?thesis
    by (simp add: wire parsed)
qed

text \<open>
  C7 as stated fails twice. A payload whose \<^verbatim>\<open>created_at\<close> field is present and holds
  the empty string normalizes to an agent with no \<^verbatim>\<open>createdAt\<close>. And a payload whose
  \<^verbatim>\<open>created_at\<close> is a text that is no date normalizes to an agent whose \<^verbatim>\<open>createdAt\<close>
  is the date of that text, which has no time value: an Invalid Date, not a valid
  instant.
\<close>

theorem timestamp_present_but_absent_counterexample:
  "map_of [(''id'', JStr ''agent_123''), (''created_at'', JStr [])] ''created_at'' = Some (JStr [])
   \<and> try_parseAgent [(''id'', JStr ''agent_123''), (''created_at'', JStr [])]
       = Inr (parseAgent [(''id'', JStr ''agent_123''), (''created_at'', JStr [])])
   \<and> Agent_createdAt (parseAgent [(''id'', JStr ''agent_123''), (''created_at'', JStr [])]) = None
   \<and> try_parseAgent [(''id'', JStr ''agent_123''), (''created_at'', JStr ''garbage'')]
       = Inr (parseAgent [(''id'', JStr ''agent_123''), (''created_at'', JStr ''garbage'')])
   \<and> Agent_createdAt (parseAgent [(''id'', JStr ''agent_123''), (''created_at'', JStr ''garbage'')])
       = Some (NewDate (JStr ''garbage''))
   \<and> time_value example_platform (NewDate (JStr ''garbage'')) = None"
  by (simp add: try_parseAgent_def date_throws_def parseAgent_def date_of_def example_platform_def)

section \<open>Round trip of full payloads (C8)\<close>

lemma or_default_string: "or_default (Some (JStr s)) (JStr []) = JStr s"
  by (simp add: or_default_def)

lemma or_default_number: "or_default (Some (JNum n)) (JNum 0) = JNum n"
  by (simp add: or_default_def)

lemma or_default_boolean: "or_default (Some (JBool b)) (JBool False) = JBool b"
  by (simp add: or_default_def)

lemma or_default_object: "or_default (Some (JObj kvs)) dflt = JObj kvs"
  by (simp add: or_default_def)

lemma or_default_undefined: "or_default None dflt = dflt"
  by (simp add: or_default_def)

lemma or_default_nonempty: "s \<noteq> [] \<Longrightarrow> or_default (Some (JStr s)) dflt = JStr s"
  by (simp add: or_default_def)

lemma date_of_nonempty: "s \<noteq> [] \<Longrightarrow> date_of (Some (JStr s)) = Some (NewDate (JStr s))"
  by (simp add: date_of_def)

lemmas round_trip_simps =
  or_default_string or_default_number or_default_boolean or_default_object or_default_undefined
  or_default_nonempty date_of_nonempty

lemma round_trip_Agent:
  "status \<in> {''active'', ''suspended''} \<Longrightarrow> createdAt \<noteq> [] \<Longrightarrow> updatedAt \<noteq> [] \<Longrightarrow>
   parseAgent (full_Agent ident name status metadata configVersion dataCount checkpointCount
       createdAt updatedAt) =
     \<lparr> Agent_id = JStr ident, Agent_name = JStr name, Agent_status = JStr status,
       Agent_metadata = JObj metadata, Agent_configVersion = Some (JStr configVersion),
       Agent_dataCount = Some (JNum dataCount), Agent_checkpointCount = Some (JNum checkpointCount),
       Agent_createdAt = Some (NewDate (JStr createdAt)),
       Agent_updatedAt = Some (NewDate (JStr updatedAt)) \<rparr>"
  by (auto simp add: parseAgent_def full_Agent_def round_trip_simps or_js_def)

lemma round_trip_Config:
  "createdAt \<noteq> [] \<Longrightarrow>
   parseConfig (full_Config agentId version settings previousVersion createdAt createdBy auditId) =
     \<lparr> Config_agentId = JStr agentId, Config_version = JStr version, Config_config = JObj settings,
       Config_previousVersion = Some (JStr previousVersion),
       Config_createdAt = Some (NewDate (JStr createdAt)),
       Config_createdBy = Some (JStr createdBy), Config_auditId = Some (JStr auditId) \<rparr>"
  by (simp add: parseConfig_def full_Config_def round_trip_simps)

lemma round_trip_ConfigVersion:
  "createdAt \<noteq> [] \<Longrightarrow>
   parseConfigVersion (full_ConfigVersion version createdAt createdBy summary) =
     \<lparr> ConfigVersion_version = JStr version,
       ConfigVersion_createdAt = Some (NewDate (JStr createdAt)),
       ConfigVersion_createdBy = Some (JStr createdBy),
       ConfigVersion_summary = Some (JStr summary) \<rparr>"
  by (simp add: parseConfigVersion_def full_ConfigVersion_def round_trip_simps)

lemma round_trip_WriteResult:
  "expiresAt \<noteq> [] \<Longrightarrow> createdAt \<noteq> [] \<Longrightarrow>
   parseWriteResult (full_WriteResult key allowed auditId blockedBy reason expiresAt createdAt) =
     \<lparr> WriteResult_key = JStr key, WriteResult_allowed = allowed, WriteResult_auditId = JStr auditId,
       WriteResult_blockedBy = Some (JStr blockedBy), WriteResult_reason = Some (JStr reason),
       WriteResult_expiresAt = Some (NewDate (JStr expiresAt)),
       WriteResult_createdAt = Some (NewDate (JStr createdAt)) \<rparr>"
  by (simp add: parseWriteResult_def full_WriteResult_def round_trip_simps)

lemma round_trip_DataEntry:
  "createdAt \<noteq> [] \<Longrightarrow> updatedAt \<noteq> [] \<Longrightarrow> expiresAt \<noteq> [] \<Longrightarrow>
   parseDataEntry (full_DataEntry key val metadata createdAt updatedAt expiresAt auditId) =
     \<lparr> DataEntry_key = JStr key, DataEntry_value = JStr val, DataEntry_metadata = JObj metadata,
       DataEntry_createdAt = Some (NewDate (JStr createdAt)),
       DataEntry_updatedAt = Some (NewDate (JStr updatedAt)),
       DataEntry_expiresAt = Some (NewDate (JStr expiresAt)),
       DataEntry_auditId = JStr auditId \<rparr>"
  by (simp add: parseDataEntry_def full_DataEntry_def round_trip_simps)

lemma round_trip_SearchResult:
  "parseSearchResult (full_SearchResult key val similarity metadata) =
     \<lparr> SearchResult_key = JStr key, SearchResult_value = JStr val,
       SearchResult_similarity = JNum similarity, SearchResult_metadata = JObj metadata \<rparr>"
  by (simp add: parseSearchResult_def full_SearchResult_def round_trip_simps)

lemma round_trip_DataSnapshot:
  "parseDataSnapshot (full_DataSnapshot keyCount totalSizeBytes) =
     \<lparr> DataSnapshot_keyCount = JNum keyCount, DataSnapshot_totalSizeBytes = JNum totalSizeBytes \<rparr>"
  by (simp add: parseDataSnapshot_def full_DataSnapshot_def round_trip_simps)

lemma round_trip_Checkpoint:
  "createdAt \<noteq> [] \<Longrightarrow>
   parseCheckpoint (full_Checkpoint ident agentId label description configVersion keyCount
       totalSizeBytes createdAt auditId) =
     \<lparr> Checkpoint_id = JStr ident, Checkpoint_agentId = JStr agentId,
       Checkpoint_label = Some (JStr label), Checkpoint_description = Some (JStr description),
       Checkpoint_configVersion = JStr configVersion,
       Checkpoint_dataSnapshot =
         \<lparr> DataSnapshot_keyCount = JNum keyCount, DataSnapshot_totalSizeBytes = JNum totalSizeBytes \<rparr>,
       Checkpoint_createdAt = Some (NewDate (JStr createdAt)),
       Checkpoint_auditId = Some (JStr auditId) \<rparr>"
  by (simp add: parseCheckpoint_def full_Checkpoint_def round_trip_simps round_trip_DataSnapshot)

lemma round_trip_RestoreResult:
  "restoredAt \<noteq> [] \<Longrightarrow>
   parseRestoreResult (full_RestoreResult restoredFrom configRestored configVersion dataRestored
       dataKeysRestored dataKeysRemoved auditId restoredAt) =
     \<lparr> RestoreResult_restoredFrom = JStr restoredFrom,
       RestoreResult_configRestored = JBool configRestored,
       RestoreResult_configVersion = Some (JStr configVersion),
       RestoreResult_dataRestored = JBool dataRestored,
       RestoreResult_dataKeysRestored = JNum dataKeysRestored,
       RestoreResult_dataKeysRemoved = JNum dataKeysRemoved,
       RestoreResult_auditId = JStr auditId,
       RestoreResult_restoredAt = Some (NewDate (JStr restoredAt)) \<rparr>"
  by (simp add: parseRestoreResult_def full_RestoreResult_def round_trip_simps)

lemma round_trip_AuditEvent:
  "result \<in> {''allowed'', ''blocked''} \<Longrightarrow> timestamp \<noteq> [] \<Longrightarrow>
   parseAuditEvent (full_AuditEvent ident agentId operation resource result blockedBy timestamp
       hash previousHash metadata) =
     \<lparr> AuditEvent_id = JStr ident, AuditEvent_agentId = JStr agentId,
       AuditEvent_operation = JStr operation, AuditEvent_resource = JStr resource,
       AuditEvent_result = JStr result, AuditEvent_blockedBy = Some (JStr blockedBy),
       AuditEvent_timestamp = Some (NewDate (JStr timestamp)), AuditEvent_hash = JStr hash,
       AuditEvent_previousHash = Some (JStr previousHash), AuditEvent_metadata = JObj metadata \<rparr>"
  by (auto simp add: parseAuditEvent_def full_AuditEvent_def round_trip_simps)

lemma round_trip_Verification:
  "verifiedAt \<noteq> [] \<Longrightarrow>
   parseVerification (full_Verification valid eventsChecked chainStart chainEnd verifiedAt
       firstInvalid) =
     \<lparr> Verification_valid = JBool valid, Verification_eventsChecked = JNum eventsChecked,
       Verification_chainStart = Some (JStr chainStart), Verification_chainEnd = Some (JStr chainEnd),
       Verification_verifiedAt = Some (NewDate (JStr verifiedAt)),
       Verification_firstInvalid = Some (JObj firstInvalid) \<rparr>"
  by (simp add: parseVerification_def full_Verification_def round_trip_simps)

lemma round_trip_ExportResult:
  "format \<in> {''json'', ''csv''} \<Longrightarrow> expiresAt \<noteq> [] \<Longrightarrow> verifiedAt \<noteq> [] \<Longrightarrow>
   parseExportResult (full_ExportResult exportId format downloadUrl expiresAt eventCount
       (full_Verification valid eventsChecked chainStart chainEnd verifiedAt firstInvalid)) =
     \<lparr> ExportResult_exportId = JStr exportId, ExportResult_format = JStr format,
       ExportResult_downloadUrl = JStr downloadUrl,
       ExportResult_expiresAt = Some (NewDate (JStr expiresAt)),
       ExportResult_eventCount = JNum eventCount,
       ExportResult_verification = Some
         \<lparr> Verification_valid = JBool valid, Verification_eventsChecked = JNum eventsChecked,
           Verification_chainStart = Some (JStr chainStart),
           Verification_chainEnd = Some (JStr chainEnd),
           Verification_verifiedAt = Some (NewDate (JStr verifiedAt)),
           Verification_firstInvalid = Some (JObj firstInvalid) \<rparr> \<rparr>"
  by (auto simp add: parseExportResult_def full_ExportResult_def round_trip_simps
      round_trip_Verification)

text \<open>
  C8. For each of the twelve entities, normalizing the payload in which every
  documented field is populated gives back every value that went in: a string, a
  number, a boolean or an object as itself, under the entity's name for the field,
  and a timestamp as the \<^verbatim>\<open>Date\<close> object of its text, so as its instant. Populated
  means a value of the field's documented type: a status is \<^verbatim>\<open>active\<close> or
  \<^verbatim>\<open>suspended\<close>, the result of an audit event \<^verbatim>\<open>allowed\<close> or \<^verbatim>\<open>blocked\<close>, the format
  of an export \<^verbatim>\<open>json\<close> or \<^verbatim>\<open>csv\<close>, and the text of a timestamp is not empty.
\<close>

theorem full_payload_round_trip:
  assumes "status \<in> {''active'', ''suspended''}"
    and "result \<in> {''allowed'', ''blocked''}"
    and "format \<in> {''json'', ''csv''}"
    and "createdAt \<noteq> []"
    and "updatedAt \<noteq> []"
    and "expiresAt \<noteq> []"
    and "restoredAt \<noteq> []"
    and "timestamp \<noteq> []"
    and "verifiedAt \<noteq> []"
  shows "parseAgent (full_Agent ident name status metadata configVersion dataCount
          checkpointCount createdAt updatedAt) =
        \<lparr> Agent_id = JStr ident,
           Agent_name = JStr name,
           Agent_status = JStr status,
           Agent_metadata = JObj metadata,
           Agent_configVersion = Some (JStr configVersion),
           Agent_dataCount = Some (JNum dataCount),
           Agent_checkpointCount = Some (JNum checkpointCount),
           Agent_createdAt = Some (NewDate (JStr createdAt)),
           Agent_updatedAt = Some (NewDate (JStr updatedAt)) \<rparr>
    \<and> parseConfig (full_Config agentId version settings previousVersion createdAt
          createdBy auditId) =
        \<lparr> Config_agentId = JStr agentId,
           Config_version = JStr version,
           Config_config = JObj settings,
           Config_previousVersion = Some (JStr previousVersion),
           Config_createdAt = Some (NewDate (JStr createdAt)),
           Config_createdBy = Some (JStr createdBy),
           Config_auditId = Some (JStr auditId) \<rparr>
    \<and> parseConfigVersion (full_ConfigVersion version createdAt createdBy summary) =
        \<lparr> ConfigVersion_version = JStr version,
           ConfigVersion_createdAt = Some (NewDate (JStr createdAt)),
           ConfigVersion_createdBy = Some (JStr createdBy),
           ConfigVersion_summary = Some (JStr summary) \<rparr>
    \<and> parseWriteResult (full_WriteResult key allowed auditId blockedBy reason expiresAt
          createdAt) =
        \<lparr> WriteResult_key = JStr key,
           WriteResult_allowed = allowed,
           WriteResult_auditId = JStr auditId,
           WriteResult_blockedBy = Some (JStr blockedBy),
           WriteResult_reason = Some (JStr reason),
           WriteResult_expiresAt = Some (NewDate (JStr expiresAt)),
           WriteResult_createdAt = Some (NewDate (JStr createdAt)) \<rparr>
    \<and> parseDataEntry (full_DataEntry key val metadata createdAt updatedAt expiresAt
          auditId) =
        \<lparr> DataEntry_key = JStr key,
           DataEntry_value = JStr val,
           DataEntry_metadata = JObj metadata,
           DataEntry_createdAt = Some (NewDate (JStr createdAt)),
           DataEntry_updatedAt = Some (NewDate (JStr updatedAt)),
           DataEntry_expiresAt = Some (NewDate (JStr expiresAt)),
           DataEntry_auditId = JStr auditId \<rparr>
    \<and> parseSearchResult (full_SearchResult key val similarity metadata) =
        \<lparr> SearchResult_key = JStr key,
           SearchResult_value = JStr val,
           SearchResult_similarity = JNum similarity,
           SearchResult_metadata = JObj metadata \<rparr>
    \<and> parseDataSnapshot (full_DataSnapshot keyCount totalSizeBytes) =
        \<lparr> DataSnapshot_keyCount = JNum keyCount,
           DataSnapshot_totalSizeBytes = JNum totalSizeBytes \<rparr>
    \<and> parseCheckpoint (full_Checkpoint ident agentId label description configVersion
          keyCount totalSizeBytes createdAt auditId) =
        \<lparr> Checkpoint_id = JStr ident,
           Checkpoint_agentId = JStr agentId,
           Checkpoint_label = Some (JStr label),
           Checkpoint_description = Some (JStr description),
           Checkpoint_configVersion = JStr configVersion,
           Checkpoint_dataSnapshot = \<lparr> DataSnapshot_keyCount = JNum keyCount,
               DataSnapshot_totalSizeBytes = JNum totalSizeBytes \<rparr>,
           Checkpoint_createdAt = Some (NewDate (JStr createdAt)),
           Checkpoint_auditId = Some (JStr auditId) \<rparr>
    \<and> parseRestoreResult (full_RestoreResult restoredFrom configRestored configVersion
          dataRestored dataKeysRestored dataKeysRemoved auditId restoredAt) =
        \<lparr> RestoreResult_restoredFrom = JStr restoredFrom,
           RestoreResult_configRestored = JBool configRestored,
           RestoreResult_configVersion = Some (JStr configVersion),
           RestoreResult_dataRestored = JBool dataRestored,
           RestoreResult_dataKeysRestored = JNum dataKeysRestored,
           RestoreResult_dataKeysRemoved = JNum dataKeysRemoved,
           RestoreResult_auditId = JStr auditId,
           RestoreResult_restoredAt = Some (NewDate (JStr restoredAt)) \<rparr>
    \<and> parseAuditEvent (full_AuditEvent ident agentId operation resource result blockedBy
          timestamp hash previousHash metadata) =
        \<lparr> AuditEvent_id = JStr ident,
           AuditEvent_agentId = JStr agentId,
           AuditEvent_operation = JStr operation,
           AuditEvent_resource = JStr resource,
           AuditEvent_result = JStr result,
           AuditEvent_blockedBy = Some (JStr blockedBy),
           AuditEvent_timestamp = Some (NewDate (JStr timestamp)),
           AuditEvent_hash = JStr hash,
           AuditEvent_previousHash = Some (JStr previousHash),
           AuditEvent_metadata = JObj metadata \<rparr>
    \<and> parseVerification (full_Verification valid eventsChecked chainStart chainEnd
          verifiedAt firstInvalid) =
        \<lparr> Verification_valid = JBool valid,
           Verification_eventsChecked = JNum eventsChecked,
           Verification_chainStart = Some (JStr chainStart),
           Verification_chainEnd = Some (JStr chainEnd),
           Verification_verifiedAt = Some (NewDate (JStr verifiedAt)),
           Verification_firstInvalid = Some (JObj firstInvalid) \<rparr>
    \<and> parseExportResult (full_ExportResult exportId format downloadUrl expiresAt
          eventCount (full_Verification valid eventsChecked chainStart chainEnd verifiedAt
          firstInvalid)) =
        \<lparr> ExportResult_exportId = JStr exportId,
           ExportResult_format = JStr format,
           ExportResult_downloadUrl = JStr downloadUrl,
           ExportResult_expiresAt = Some (NewDate (JStr expiresAt)),
           ExportResult_eventCount = JNum eventCount,
           ExportResult_verification = Some \<lparr> Verification_valid = JBool valid,
               Verification_eventsChecked = JNum eventsChecked,
               Verification_chainStart = Some (JStr chainStart),
               Verification_chainEnd = Some (JStr chainEnd),
               Verification_verifiedAt = Some (NewDate (JStr verifiedAt)),
               Verification_firstInvalid = Some (JObj firstInvalid) \<rparr> \<rparr>"
  using assms
  by (simp only: round_trip_Agent round_trip_Config round_trip_ConfigVersion round_trip_WriteResult
      round_trip_DataEntry round_trip_SearchResult round_trip_DataSnapshot round_trip_Checkpoint
      round_trip_RestoreResult round_trip_AuditEvent round_trip_Verification
      round_trip_ExportResult simp_thms)

theorem full_payload_round_trip_witness:
  "parseAgent (full_Agent ''agent_123'' ''test-agent'' ''active'' [(''env'', JStr ''test'')]
          ''v5'' 100 5 ''2024-01-01T00:00:00Z'' ''2024-01-15T12:30:00Z'') =
        \<lparr> Agent_id = JStr ''agent_123'',
           Agent_name = JStr ''test-agent'',
           Agent_status = JStr ''active'',
           Agent_metadata = JObj [(''env'', JStr ''test'')],
           Agent_configVersion = Some (JStr ''v5''),
           Agent_dataCount = Some (JNum 100),
           Agent_checkpointCount = Some (JNum 5),
           Agent_createdAt = Some (NewDate (JStr ''2024-01-01T00:00:00Z'')),
           Agent_updatedAt = Some (NewDate (JStr ''2024-01-15T12:30:00Z'')) \<rparr>
    \<and> parseConfig (full_Config ''agent_123'' ''v5'' [(''model'', JStr ''gpt-4'')] ''v4''
          ''2024-01-01T00:00:00Z'' ''user_1'' ''audit_1'') =
        \<lparr> Config_agentId = JStr ''agent_123'',
           Config_version = JStr ''v5'',
           Config_config = JObj [(''model'', JStr ''gpt-4'')],
           Config_previousVersion = Some (JStr ''v4''),
           Config_createdAt = Some (NewDate (JStr ''2024-01-01T00:00:00Z'')),
           Config_createdBy = Some (JStr ''user_1''),
           Config_auditId = Some (JStr ''audit_1'') \<rparr>
    \<and> parseConfigVersion (full_ConfigVersion ''v5'' ''2024-01-01T00:00:00Z'' ''user_1''
          ''initial'') =
        \<lparr> ConfigVersion_version = JStr ''v5'',
           ConfigVersion_createdAt = Some (NewDate (JStr ''2024-01-01T00:00:00Z'')),
           ConfigVersion_createdBy = Some (JStr ''user_1''),
           ConfigVersion_summary = Some (JStr ''initial'') \<rparr>
    \<and> parseWriteResult (full_WriteResult ''user:123:pref'' False ''audit_1''
          ''pii_filter'' ''contains_pii'' ''2024-02-01T00:00:00Z'' ''2024-01-01T00:00:00Z'')
          =
        \<lparr> WriteResult_key = JStr ''user:123:pref'',
           WriteResult_allowed = False,
           WriteResult_auditId = JStr ''audit_1'',
           WriteResult_blockedBy = Some (JStr ''pii_filter''),
           WriteResult_reason = Some (JStr ''contains_pii''),
           WriteResult_expiresAt = Some (NewDate (JStr ''2024-02-01T00:00:00Z'')),
           WriteResult_createdAt = Some (NewDate (JStr ''2024-01-01T00:00:00Z'')) \<rparr>
    \<and> parseDataEntry (full_DataEntry ''user:123:pref'' ''dark_mode'' [(''env'', JStr
          ''test'')] ''2024-01-01T00:00:00Z'' ''2024-01-15T12:30:00Z''
          ''2024-02-01T00:00:00Z'' ''audit_1'') =
        \<lparr> DataEntry_key = JStr ''user:123:pref'',
           DataEntry_value = JStr ''dark_mode'',
           DataEntry_metadata = JObj [(''env'', JStr ''test'')],
           DataEntry_createdAt = Some (NewDate (JStr ''2024-01-01T00:00:00Z'')),
           DataEntry_updatedAt = Some (NewDate (JStr ''2024-01-15T12:30:00Z'')),
           DataEntry_expiresAt = Some (NewDate (JStr ''2024-02-01T00:00:00Z'')),
           DataEntry_auditId = JStr ''audit_1'' \<rparr>
    \<and> parseSearchResult (full_SearchResult ''user:123:pref'' ''dark_mode'' (95 / 100)
          [(''env'', JStr ''test'')]) =
        \<lparr> SearchResult_key = JStr ''user:123:pref'',
           SearchResult_value = JStr ''dark_mode'',
           SearchResult_similarity = JNum (95 / 100),
           SearchResult_metadata = JObj [(''env'', JStr ''test'')] \<rparr>
    \<and> parseDataSnapshot (full_DataSnapshot 50 1024) =
        \<lparr> DataSnapshot_keyCount = JNum 50,
           DataSnapshot_totalSizeBytes = JNum 1024 \<rparr>
    \<and> parseCheckpoint (full_Checkpoint ''agent_123'' ''agent_123'' ''pre-update''
          ''before-migration'' ''v5'' 50 1024 ''2024-01-01T00:00:00Z'' ''audit_1'') =
        \<lparr> Checkpoint_id = JStr ''agent_123'',
           Checkpoint_agentId = JStr ''agent_123'',
           Checkpoint_label = Some (JStr ''pre-update''),
           Checkpoint_description = Some (JStr ''before-migration''),
           Checkpoint_configVersion = JStr ''v5'',
           Checkpoint_dataSnapshot = \<lparr> DataSnapshot_keyCount = JNum 50,
               DataSnapshot_totalSizeBytes = JNum 1024 \<rparr>,
           Checkpoint_createdAt = Some (NewDate (JStr ''2024-01-01T00:00:00Z'')),
           Checkpoint_auditId = Some (JStr ''audit_1'') \<rparr>
    \<and> parseRestoreResult (full_RestoreResult ''cp_1'' True ''v5'' False 10 0 ''audit_1''
          ''2024-01-02T00:00:00Z'') =
        \<lparr> RestoreResult_restoredFrom = JStr ''cp_1'',
           RestoreResult_configRestored = JBool True,
           RestoreResult_configVersion = Some (JStr ''v5''),
           RestoreResult_dataRestored = JBool False,
           RestoreResult_dataKeysRestored = JNum 10,
           RestoreResult_dataKeysRemoved = JNum 0,
           RestoreResult_auditId = JStr ''audit_1'',
           RestoreResult_restoredAt = Some (NewDate (JStr ''2024-01-02T00:00:00Z'')) \<rparr>
    \<and> parseAuditEvent (full_AuditEvent ''agent_123'' ''agent_123'' ''data.write''
          ''user:123:pref'' ''blocked'' ''pii_filter'' ''2024-01-01T00:00:00Z'' ''abc''
          ''def'' [(''env'', JStr ''test'')]) =
        \<lparr> AuditEvent_id = JStr ''agent_123'',
           AuditEvent_agentId = JStr ''agent_123'',
           AuditEvent_operation = JStr ''data.write'',
           AuditEvent_resource = JStr ''user:123:pref'',
           AuditEvent_result = JStr ''blocked'',
           AuditEvent_blockedBy = Some (JStr ''pii_filter''),
           AuditEvent_timestamp = Some (NewDate (JStr ''2024-01-01T00:00:00Z'')),
           AuditEvent_hash = JStr ''abc'',
           AuditEvent_previousHash = Some (JStr ''def''),
           AuditEvent_metadata = JObj [(''env'', JStr ''test'')] \<rparr>
    \<and> parseVerification (full_Verification True 1000 ''h0'' ''h9''
          ''2024-01-01T00:00:00Z'' [(''id'', JStr ''evt_7'')]) =
        \<lparr> Verification_valid = JBool True,
           Verification_eventsChecked = JNum 1000,
           Verification_chainStart = Some (JStr ''h0''),
           Verification_chainEnd = Some (JStr ''h9''),
           Verification_verifiedAt = Some (NewDate (JStr ''2024-01-01T00:00:00Z'')),
           Verification_firstInvalid = Some (JObj [(''id'', JStr ''evt_7'')]) \<rparr>
    \<and> parseExportResult (full_ExportResult ''exp_123'' ''json''
          ''https://api.getanchor.dev/exports/exp_123'' ''2024-02-01T00:00:00Z'' 1000
          (full_Verification True 1000 ''h0'' ''h9'' ''2024-01-01T00:00:00Z'' [(''id'', JStr
          ''evt_7'')])) =
        \<lparr> ExportResult_exportId = JStr ''exp_123'',
           ExportResult_format = JStr ''json'',
           ExportResult_downloadUrl = JStr ''https://api.getanchor.dev/exports/exp_123'',
           ExportResult_expiresAt = Some (NewDate (JStr ''2024-02-01T00:00:00Z'')),
           ExportResult_eventCount = JNum 1000,
           ExportResult_verification = Some \<lparr> Verification_valid = JBool True,
               Verification_eventsChecked = JNum 1000,
               Verification_chainStart = Some (JStr ''h0''),
               Verification_chainEnd = Some (JStr ''h9''),
               Verification_verifiedAt = Some (NewDate (JStr ''2024-01-01T00:00:00Z'')),
               Verification_firstInvalid = Some (JObj [(''id'',
               JStr ''evt_7'')]) \<rparr> \<rparr>"
  using full_payload_round_trip[where ident = "''agent_123''"
      and name = "''test-agent''"
      and status = "''active''"
      and metadata = "[(''env'', JStr ''test'')]"
      and configVersion = "''v5''"
      and dataCount = "100"
      and checkpointCount = "5"
      and createdAt = "''2024-01-01T00:00:00Z''"
      and updatedAt = "''2024-01-15T12:30:00Z''"
      and agentId = "''agent_123''"
      and version = "''v5''"
      and settings = "[(''model'', JStr ''gpt-4'')]"
      and previousVersion = "''v4''"
      and createdBy = "''user_1''"
      and auditId = "''audit_1''"
      and summary = "''initial''"
      and key = "''user:123:pref''"
      and allowed = "False"
      and blockedBy = "''pii_filter''"
      and reason = "''contains_pii''"
      and expiresAt = "''2024-02-01T00:00:00Z''"
      and val = "''dark_mode''"
      and similarity = "(95 / 100)"
      and keyCount = "50"
      and totalSizeBytes = "1024"
      and label = "''pre-update''"
      and description = "''before-migration''"
      and restoredFrom = "''cp_1''"
      and configRestored = "True"
      and dataRestored = "False"
      and dataKeysRestored = "10"
      and dataKeysRemoved = "0"
      and restoredAt = "''2024-01-02T00:00:00Z''"
      and operation = "''data.write''"
      and resource = "''user:123:pref''"
      and result = "''blocked''"
      and timestamp = "''2024-01-01T00:00:00Z''"
      and hash = "''abc''"
      and previousHash = "''def''"
      and valid = "True"
      and eventsChecked = "1000"
      and chainStart = "''h0''"
      and chainEnd = "''h9''"
      and verifiedAt = "''2024-01-01T00:00:00Z''"
      and firstInvalid = "[(''id'', JStr ''evt_7'')]"
      and exportId = "''exp_123''"
      and format = "''json''"
      and downloadUrl = "''https://api.getanchor.dev/exports/exp_123''"
      and eventCount = "1000"]
  by simp


end
